theory Spec2Isabelle
  imports Complex_Main "HOL-Library.Multiset" "HOL-Library.Log_Nat"
begin

section \<open>Values of the JavaScript runtime\<close>

text \<open>
  The repository holds two versions of the scheduler: \<^verbatim>\<open>src/unnamed/part_000\<close> (the
  three-role rotation, the spec's Policy A) and \<^verbatim>\<open>src/app.js\<close> (the single-role
  rotation, the spec's Policy B). Both define \<^verbatim>\<open>generateSchedule\<close> and an identical
  \<^verbatim>\<open>exportICS\<close>; the definitions of \<^verbatim>\<open>app.js\<close> carry the suffix \<open>_app\<close>.

  A \<^verbatim>\<open>Date\<close> is modelled by its time value read on the local wall clock: the number of
  milliseconds since local midnight of 1 January 1970, for a zone whose offset is constant
  (every local day has 86400000 ms). The parameter record holds the values the generator
  works with after its conversions: \<open>startDate\<close> is the time value of
  \<^verbatim>\<open>new Date(startDate)\<close> (a valid date), each time-of-day field is the pair
  \<^verbatim>\<open>{h, m}\<close> that \<^verbatim>\<open>parseTime\<close> returns for it (two integers), the cadences are
  integer-valued numbers, and \<open>years\<close> is a finite double, given as the rational number it
  is, small enough for the end date to be a valid date.
\<close>

type_synonym jsdate = int

text \<open>
  Arithmetic on numbers is IEEE 754 binary64: the result of an operation is the exact
  result rounded to the nearest double, ties to the even significand. \<open>binary64 x\<close> is that
  rounding of a rational \<open>x\<close>: significands of 53 bits, and below \<open>pow2 (-1022)\<close> the
  subnormal numbers, multiples of \<open>pow2 (-1074)\<close>; overflow to infinity is outside the model.
  \<open>pow2 e\<close> is the power of two with exponent \<open>e\<close>, and \<open>ilog2 x\<close> the binary exponent of a
  positive \<open>x\<close>, the \<open>e\<close> with \<open>pow2 e \<le> x < pow2 (e + 1)\<close>.
\<close>

definition pow2 :: "int \<Rightarrow> rat" where
  "pow2 e = (if 0 \<le> e then 2 ^ nat e else 1 / 2 ^ nat (- e))"

definition ilog2 :: "rat \<Rightarrow> int" where
  "ilog2 x =
     (let e = bitlen (fst (quotient_of x)) - bitlen (snd (quotient_of x))
      in if pow2 e \<le> x then e else e - 1)"

definition roundHalfEven :: "rat \<Rightarrow> int" where
  "roundHalfEven q =
     (let f = \<lfloor>q\<rfloor>; d = q - of_int f
      in if d < 1 / 2 then f else if 1 / 2 < d then f + 1 else if even f then f else f + 1)"

definition binary64 :: "rat \<Rightarrow> rat" where
  "binary64 x =
     (if x = 0 then 0
      else (let e = max (ilog2 \<bar>x\<bar>) (- 1022);
                ulp = pow2 (e - 52)
            in sgn x * of_int (roundHalfEven (\<bar>x\<bar> / ulp)) * ulp))"

definition msPerDay :: int where
  "msPerDay = 86400000"

text \<open>\<^verbatim>\<open>d.setDate(d.getDate() + days)\<close> on a copy: the same local time of day, \<open>days\<close> later.\<close>

definition addDays :: "jsdate \<Rightarrow> int \<Rightarrow> jsdate" where
  "addDays date days = date + days * msPerDay"

text \<open>
  \<^verbatim>\<open>d.setHours(h, m, 0, 0)\<close>: ECMA-262 \<open>MakeDate(Day(t), MakeTime(h, m, 0, 0))\<close> on the
  local time value; hours and minutes out of range roll over into the neighbouring days.
\<close>

definition setHours :: "jsdate \<Rightarrow> int \<Rightarrow> int \<Rightarrow> jsdate" where
  "setHours d hh mm = (d div msPerDay) * msPerDay + hh * 3600000 + mm * 60000"

text \<open>
  The remainder operator \<^verbatim>\<open>a % b\<close> on integer-valued numbers: \<open>NaN\<close> (here \<open>None\<close>)
  for a zero divisor, otherwise the truncated remainder, which has the sign of \<open>a\<close>.
\<close>

definition js_rem :: "int \<Rightarrow> int \<Rightarrow> int option" where
  "js_rem a b = (if b = 0 then None else Some (sgn a * (\<bar>a\<bar> mod \<bar>b\<bar>)))"

text \<open>
  \<^verbatim>\<open>people[i]\<close>: the element at an index inside the array, \<^verbatim>\<open>undefined\<close> (here
  \<open>None\<close>) at \<open>NaN\<close> and at every index outside it.
\<close>

definition js_index :: "'a list \<Rightarrow> int option \<Rightarrow> 'a option" where
  "js_index xs i =
     (case i of
        None \<Rightarrow> None
      | Some k \<Rightarrow> if 0 \<le> k \<and> k < int (length xs) then Some (xs ! nat k) else None)"

text \<open>A value interpolated by a template literal: \<^verbatim>\<open>undefined\<close> prints as its name.\<close>

definition tpl :: "string option \<Rightarrow> string" where
  "tpl v = (case v of None \<Rightarrow> ''undefined'' | Some s \<Rightarrow> s)"

section \<open>Parameters and events\<close>

record hm =
  hm_h :: int
  hm_m :: int

record params =
  startDate :: jsdate
  years :: rat
  rotationOrder :: "string list"
  rotationWeeks :: int
  hospStartTime :: hm
  hospEndTime :: hm
  odcStartTime :: hm
  odcEndTime :: hm
  lanePatternWeeks :: int
  laneStartTime :: hm
  laneEndTime :: hm
  showOff :: bool
  doubleOffOnLaneWeeks :: bool
  hideODCWhenLane :: bool
  weekendStartTime :: hm
  weekendEndTime :: hm
  laneWeekendEvery :: int

text \<open>An event \<^verbatim>\<open>{ title, start, end }\<close>; the field \<^verbatim>\<open>end\<close> is named \<open>endt\<close> here.\<close>

record event =
  title :: string
  start :: jsdate
  endt :: jsdate

definition buildEvent :: "string \<Rightarrow> jsdate \<Rightarrow> jsdate \<Rightarrow> event" where
  "buildEvent t s e = \<lparr>title = t, start = s, endt = e\<rparr>"

datatype error = Error string

text \<open>\<^verbatim>\<open>shifts.push(e)\<close>.\<close>

definition push :: "'a list \<Rightarrow> 'a \<Rightarrow> 'a list" where
  "push xs x = xs @ [x]"

text \<open>
  The block \<^verbatim>\<open>st = new Date(date); et = new Date(date); st.setHours(..); et.setHours(..)\<close>
  followed by \<^verbatim>\<open>buildEvent\<close>, which every branch of the generator repeats.
\<close>

definition windowEvent :: "string \<Rightarrow> jsdate \<Rightarrow> hm \<Rightarrow> jsdate \<Rightarrow> hm \<Rightarrow> event" where
  "windowEvent t d1 t1 d2 t2 =
     buildEvent t (setHours d1 (hm_h t1) (hm_m t1)) (setHours d2 (hm_h t2) (hm_m t2))"

section \<open>The generator's preamble\<close>

text \<open>
  \<^verbatim>\<open>Math.floor(years * 365.25)\<close>: the floor of the double product. \<^verbatim>\<open>Math.ceil(totalDays / 7)\<close>
  divides an integer of at most \<open>10\<^sup>8\<close> (the end date is a valid date), where the rounding of
  the quotient does not change its ceiling.
\<close>

definition totalDays :: "params \<Rightarrow> int" where
  "totalDays p = \<lfloor>binary64 (years p * 365.25)\<rfloor>"

definition endDate :: "params \<Rightarrow> jsdate" where
  "endDate p = addDays (startDate p) (totalDays p)"

definition weeksTotal :: "params \<Rightarrow> int" where
  "weeksTotal p = \<lceil>(of_int (totalDays p) :: rat) / 7\<rceil>"

definition isLaneWeek :: "params \<Rightarrow> int \<Rightarrow> bool" where
  "isLaneWeek p w = (js_rem w (lanePatternWeeks p) = Some 0)"

definition isLaneWeekend :: "params \<Rightarrow> int \<Rightarrow> bool" where
  "isLaneWeekend p w = (js_rem w (laneWeekendEvery p) = Some 0)"

definition weekStart :: "params \<Rightarrow> int \<Rightarrow> jsdate" where
  "weekStart p week = addDays (startDate p) (week * 7)"

section \<open>The three-role generator (part\_000)\<close>

definition hospitalForWeek :: "string list \<Rightarrow> int \<Rightarrow> string option" where
  "hospitalForWeek people w = js_index people (js_rem w (int (length people)))"

definition odcForWeek :: "string list \<Rightarrow> int \<Rightarrow> string option" where
  "odcForWeek people w = js_index people (js_rem (w + 1) (int (length people)))"

definition offForWeek :: "string list \<Rightarrow> int \<Rightarrow> string option" where
  "offForWeek people w = js_index people (js_rem (w + 2) (int (length people)))"

text \<open>One pass of the body of the weekday loop, after its \<^verbatim>\<open>break\<close> test.\<close>

definition weekdayBody :: "params \<Rightarrow> int \<Rightarrow> jsdate \<Rightarrow> event list \<Rightarrow> event list" where
  "weekdayBody p week date shifts =
     (let hospPerson = hospitalForWeek (rotationOrder p) week;
          odcPerson = odcForWeek (rotationOrder p) week;
          offPerson = offForWeek (rotationOrder p) week;
          s1 = push shifts
                 (windowEvent (''HOSPITAL '' @ tpl hospPerson)
                    date (hospStartTime p) date (hospEndTime p))
      in if isLaneWeek p week then
           (let s2 = push s1 (windowEvent ''ODC Lane'' date (laneStartTime p) date (laneEndTime p));
                s3 = (if showOff p
                      then push s2 (windowEvent (''OFF '' @ tpl odcPerson)
                                      date (odcStartTime p) date (odcEndTime p))
                      else s2);
                s4 = (if showOff p \<and> doubleOffOnLaneWeeks p
                      then push s3 (windowEvent (''OFF '' @ tpl offPerson)
                                      date (odcStartTime p) date (odcEndTime p))
                      else s3)
            in s4)
         else
           (let s2 = push s1 (windowEvent (''ODC '' @ tpl odcPerson)
                                date (odcStartTime p) date (odcEndTime p));
                s3 = (if showOff p
                      then push s2 (windowEvent (''OFF '' @ tpl offPerson)
                                      date (odcStartTime p) date (odcEndTime p))
                      else s2)
            in s3))"

text \<open>
  \<^verbatim>\<open>for (let day = 0; day < 5; day++) { date = addDays(weekStart, day); if (date > end) break; ... }\<close>
  entered at \<open>day\<close>.
\<close>

function weekdayLoop :: "params \<Rightarrow> int \<Rightarrow> int \<Rightarrow> event list \<Rightarrow> event list" where
  "weekdayLoop p week day shifts =
     (if day < 5 then
        (let date = addDays (weekStart p week) day
         in if date > endDate p then shifts
            else weekdayLoop p week (day + 1) (weekdayBody p week date shifts))
      else shifts)"
  by pat_completeness auto
termination
  by (relation "measure (\<lambda>(p, week, day, shifts). nat (5 - day))") auto

text \<open>The weekend block that closes a pass of the week loop.\<close>

definition weekendBlock :: "params \<Rightarrow> int \<Rightarrow> string option \<Rightarrow> event list \<Rightarrow> event list" where
  "weekendBlock p week person shifts =
     (let sat = addDays (weekStart p week) 5;
          sun = addDays (weekStart p week) 6
      in if sat \<le> endDate p then
           (let weekendTitle = (if isLaneWeekend p week then ''Weekend Lane''
                                else ''Weekend '' @ tpl person)
            in push shifts (windowEvent weekendTitle sat (weekendStartTime p) sun (weekendEndTime p)))
         else shifts)"

definition weekBody :: "params \<Rightarrow> int \<Rightarrow> event list \<Rightarrow> event list" where
  "weekBody p week shifts =
     weekendBlock p week (hospitalForWeek (rotationOrder p) week)
       (weekdayLoop p week 0 shifts)"

text \<open>\<^verbatim>\<open>for (let week = 0; week < weeksTotal; week++) { ... }\<close> entered at \<open>week\<close>.\<close>

function weekLoop :: "params \<Rightarrow> int \<Rightarrow> event list \<Rightarrow> event list" where
  "weekLoop p week shifts =
     (if week < weeksTotal p then weekLoop p (week + 1) (weekBody p week shifts)
      else shifts)"
  by pat_completeness auto
termination
  by (relation "measure (\<lambda>(p, week, shifts). nat (weeksTotal p - week))") auto

text \<open>
  \<^verbatim>\<open>shifts.sort((a, b) => a.start - b.start)\<close>: \<^verbatim>\<open>Array.prototype.sort\<close> is a stable sort
  (ECMAScript 2019), here the stable insertion sort of the library on the start times.
\<close>

definition sortByStart :: "event list \<Rightarrow> event list" where
  "sortByStart shifts = sort_key start shifts"

definition generateSchedule :: "params \<Rightarrow> error + event list" where
  "generateSchedule p =
     (if length (rotationOrder p) < 3
      then Inl (Error ''Rotation order must include at least 3 people (Hospital / ODC / OFF).'')
      else Inr (sortByStart (weekLoop p 0 [])))"

section \<open>The single-role generator (app.js)\<close>

definition personForWeek :: "params \<Rightarrow> int \<Rightarrow> string option" where
  "personForWeek p weekIndex = js_index (rotationOrder p) (js_rem weekIndex (rotationWeeks p))"

definition weekdayBody_app :: "params \<Rightarrow> int \<Rightarrow> jsdate \<Rightarrow> event list \<Rightarrow> event list" where
  "weekdayBody_app p week date shifts =
     (let person = personForWeek p week;
          s1 = push shifts
                 (windowEvent (''HOSPITAL '' @ tpl person)
                    date (hospStartTime p) date (hospEndTime p));
          s2 = (if \<not> (hideODCWhenLane p \<and> isLaneWeek p week)
                then push s1 (windowEvent (''ODC '' @ tpl person)
                                date (odcStartTime p) date (odcEndTime p))
                else s1);
          s3 = (if isLaneWeek p week
                then push s2 (windowEvent ''ODC Lane'' date (laneStartTime p) date (laneEndTime p))
                else s2)
      in s3)"

function weekdayLoop_app :: "params \<Rightarrow> int \<Rightarrow> int \<Rightarrow> event list \<Rightarrow> event list" where
  "weekdayLoop_app p week day shifts =
     (if day < 5 then
        (let date = addDays (weekStart p week) day
         in if date > endDate p then shifts
            else weekdayLoop_app p week (day + 1) (weekdayBody_app p week date shifts))
      else shifts)"
  by pat_completeness auto
termination
  by (relation "measure (\<lambda>(p, week, day, shifts). nat (5 - day))") auto

definition weekBody_app :: "params \<Rightarrow> int \<Rightarrow> event list \<Rightarrow> event list" where
  "weekBody_app p week shifts =
     weekendBlock p week (personForWeek p week) (weekdayLoop_app p week 0 shifts)"

function weekLoop_app :: "params \<Rightarrow> int \<Rightarrow> event list \<Rightarrow> event list" where
  "weekLoop_app p week shifts =
     (if week < weeksTotal p then weekLoop_app p (week + 1) (weekBody_app p week shifts)
      else shifts)"
  by pat_completeness auto
termination
  by (relation "measure (\<lambda>(p, week, shifts). nat (weeksTotal p - week))") auto

text \<open>
  \<^verbatim>\<open>app.js\<close> has no \<^verbatim>\<open>throw\<close>: its generator returns a schedule for every parameter
  object. The result is wrapped in \<open>Inr\<close> so that both generators have one result type.
\<close>

definition generateSchedule_app :: "params \<Rightarrow> error + event list" where
  "generateSchedule_app p = Inr (sortByStart (weekLoop_app p 0 []))"

section \<open>The iCalendar export\<close>

text \<open>
  The getters of \<^verbatim>\<open>Date\<close> that \<^verbatim>\<open>toICSDateTime\<close> reads, after ECMA-262
  (\<open>YearFromTime\<close>, \<open>MonthFromTime\<close>, \<open>DateFromTime\<close>, \<open>HourFromTime\<close>, \<open>MinFromTime\<close>) on
  the local time value. The day number is turned into a date of the proleptic Gregorian
  calendar by counting in 400-year eras that begin on 1 March.
\<close>

definition civil :: "int \<Rightarrow> int \<times> int \<times> int" where
  "civil z =
     (let z1 = z + 719468;
          era = z1 div 146097;
          doe = z1 - era * 146097;
          yoe = (doe - doe div 1460 + doe div 36524 - doe div 146096) div 365;
          doy = doe - (365 * yoe + yoe div 4 - yoe div 100);
          mp = (5 * doy + 2) div 153;
          d = doy - (153 * mp + 2) div 5 + 1;
          mo = (if mp < 10 then mp + 3 else mp - 9);
          y = yoe + era * 400 + (if mo \<le> 2 then 1 else 0)
      in (y, mo, d))"

definition getFullYear :: "jsdate \<Rightarrow> int" where
  "getFullYear t = fst (civil (t div msPerDay))"

definition getMonth :: "jsdate \<Rightarrow> int" where
  "getMonth t = fst (snd (civil (t div msPerDay))) - 1"

definition getDate :: "jsdate \<Rightarrow> int" where
  "getDate t = snd (snd (civil (t div msPerDay)))"

definition getHours :: "jsdate \<Rightarrow> int" where
  "getHours t = (t div 3600000) mod 24"

definition getMinutes :: "jsdate \<Rightarrow> int" where
  "getMinutes t = (t div 60000) mod 60"

text \<open>\<^verbatim>\<open>String(n)\<close> for an integer: its decimal digits, after a minus sign when negative.\<close>

fun digits :: "nat \<Rightarrow> string" where
  "digits n =
     (if n < 10 then [char_of (48 + n)]
      else digits (n div 10) @ [char_of (48 + n mod 10)])"

definition String_of :: "int \<Rightarrow> string" where
  "String_of n = (if n < 0 then ''-'' @ digits (nat (- n)) else digits (nat n))"

text \<open>\<^verbatim>\<open>s.padStart(2, "0")\<close>.\<close>

definition padStart2 :: "string \<Rightarrow> string" where
  "padStart2 s = replicate (2 - length s) (CHR ''0'') @ s"

definition pad :: "int \<Rightarrow> string" where
  "pad n = padStart2 (String_of n)"

definition toICSDateTime :: "jsdate \<Rightarrow> string" where
  "toICSDateTime d =
     String_of (getFullYear d) @ pad (getMonth d + 1) @ pad (getDate d) @ ''T''
       @ pad (getHours d) @ pad (getMinutes d) @ ''00''"

text \<open>\<^verbatim>\<open>lines.join("\r\n")\<close>.\<close>

fun join :: "string \<Rightarrow> string list \<Rightarrow> string" where
  "join sep [] = []"
| "join sep [x] = x"
| "join sep (x # y # ys) = x @ sep @ join sep (y # ys)"

definition CRLF :: string where
  "CRLF = [CHR 0x0D, CHR 0x0A]"

text \<open>
  The loop \<^verbatim>\<open>for (const e of events)\<close> of \<^verbatim>\<open>exportICS\<close>. Its two reads of the
  environment are made explicit: the \<open>i\<close>-th call of \<^verbatim>\<open>crypto.randomUUID()\<close> returns
  \<open>uuid i\<close> and the \<open>i\<close>-th call of \<^verbatim>\<open>new Date()\<close> returns \<open>now i\<close>.
\<close>

fun eventLoop :: "(nat \<Rightarrow> string) \<Rightarrow> (nat \<Rightarrow> jsdate) \<Rightarrow> nat \<Rightarrow> event list \<Rightarrow> string list \<Rightarrow> string list" where
  "eventLoop uuid now i [] lines = lines"
| "eventLoop uuid now i (e # es) lines =
     (let uid = uuid i;
          l1 = push lines ''BEGIN:VEVENT'';
          l2 = push l1 (''UID:'' @ uid);
          l3 = push l2 (''DTSTAMP:'' @ toICSDateTime (now i));
          l4 = push l3 (''SUMMARY:'' @ title e);
          l5 = push l4 (''DTSTART:'' @ toICSDateTime (start e));
          l6 = push l5 (''DTEND:'' @ toICSDateTime (endt e));
          l7 = push l6 ''END:VEVENT''
      in eventLoop uuid now (i + 1) es l7)"

definition exportICS :: "(nat \<Rightarrow> string) \<Rightarrow> (nat \<Rightarrow> jsdate) \<Rightarrow> event list \<Rightarrow> string" where
  "exportICS uuid now events =
     (let l1 = push [] ''BEGIN:VCALENDAR'';
          l2 = push l1 ''VERSION:2.0'';
          l3 = push l2 ''PRODID:-//ShiftScheduler//EN'';
          l4 = eventLoop uuid now 0 events l3;
          l5 = push l4 ''END:VCALENDAR''
      in join CRLF l5)"

section \<open>Descriptions used by the theorems\<close>

text \<open>The weekdays of week \<open>w\<close> that are in range: the offsets whose date is not after the end.\<close>

definition inRangeDays :: "params \<Rightarrow> int \<Rightarrow> int list" where
  "inRangeDays p w = [d\<leftarrow>[0..4]. addDays (weekStart p w) d \<le> endDate p]"

text \<open>The list that the weekend block of a pass of the week loop appends.\<close>

definition weekendSpec :: "params \<Rightarrow> string option \<Rightarrow> int \<Rightarrow> event list" where
  "weekendSpec p person w =
     (if addDays (weekStart p w) 5 \<le> endDate p
      then [windowEvent (if isLaneWeekend p w then ''Weekend Lane'' else ''Weekend '' @ tpl person)
              (addDays (weekStart p w) 5) (weekendStartTime p)
              (addDays (weekStart p w) 6) (weekendEndTime p)]
      else [])"

subsection \<open>The schedule in calendar arithmetic\<close>

text \<open>
  The events that the spec describes, written in arithmetic on milliseconds without any
  function of the generators: \<open>dayOf p w d\<close> is the date \<open>7 w + d\<close> days after the start,
  \<open>endOf p\<close> the end of the span, \<open>clockOn date t\<close> the time of day \<open>t\<close> on the calendar day
  of \<open>date\<close>, and \<open>dayEvent\<close> an event that starts and ends on one calendar day.
\<close>

definition dayOf :: "params \<Rightarrow> int \<Rightarrow> int \<Rightarrow> jsdate" where
  "dayOf p w d = startDate p + (7 * w + d) * 86400000"

definition endOf :: "params \<Rightarrow> jsdate" where
  "endOf p = startDate p + totalDays p * 86400000"

definition clockOn :: "jsdate \<Rightarrow> hm \<Rightarrow> jsdate" where
  "clockOn date t = date - date mod 86400000 + hm_h t * 3600000 + hm_m t * 60000"

definition dayEvent :: "string \<Rightarrow> jsdate \<Rightarrow> hm \<Rightarrow> hm \<Rightarrow> event" where
  "dayEvent t date t1 t2 = \<lparr>title = t, start = clockOn date t1, endt = clockOn date t2\<rparr>"

text \<open>The weekday offsets of week \<open>w\<close> whose date is not after the end.\<close>

definition inRangeWeekdays :: "params \<Rightarrow> int \<Rightarrow> int list" where
  "inRangeWeekdays p w = [d\<leftarrow>[0..4]. dayOf p w d \<le> endOf p]"

text \<open>
  The events of one weekday under Policy A (spec 4.3, step 3c): the hospital event; on a lane
  week "ODC Lane" in the lane window, "OFF" for the displaced on-call person if off-visibility
  is on, and "OFF" for the normally-off person if double-off is on as well; otherwise "ODC"
  for the on-call person and, if off-visibility is on, "OFF" for the off person. Every
  "ODC {person}" and "OFF" event is in the on-call window.
\<close>

definition policyA_weekday :: "params \<Rightarrow> int \<Rightarrow> int \<Rightarrow> event list" where
  "policyA_weekday p w d =
     (if isLaneWeek p w then
        [dayEvent (''HOSPITAL '' @ tpl (hospitalForWeek (rotationOrder p) w))
           (dayOf p w d) (hospStartTime p) (hospEndTime p),
         dayEvent ''ODC Lane'' (dayOf p w d) (laneStartTime p) (laneEndTime p)]
        @ (if showOff p
           then [dayEvent (''OFF '' @ tpl (odcForWeek (rotationOrder p) w))
                   (dayOf p w d) (odcStartTime p) (odcEndTime p)]
           else [])
        @ (if showOff p \<and> doubleOffOnLaneWeeks p
           then [dayEvent (''OFF '' @ tpl (offForWeek (rotationOrder p) w))
                   (dayOf p w d) (odcStartTime p) (odcEndTime p)]
           else [])
      else
        [dayEvent (''HOSPITAL '' @ tpl (hospitalForWeek (rotationOrder p) w))
           (dayOf p w d) (hospStartTime p) (hospEndTime p),
         dayEvent (''ODC '' @ tpl (odcForWeek (rotationOrder p) w))
           (dayOf p w d) (odcStartTime p) (odcEndTime p)]
        @ (if showOff p
           then [dayEvent (''OFF '' @ tpl (offForWeek (rotationOrder p) w))
                   (dayOf p w d) (odcStartTime p) (odcEndTime p)]
           else []))"

text \<open>
  The events of one weekday under Policy B: the hospital event, "ODC" for the duty person in
  the on-call window unless the week is a lane week and the suppression flag is set, and on a
  lane week "ODC Lane" in the lane window.
\<close>

definition policyB_weekday :: "params \<Rightarrow> int \<Rightarrow> int \<Rightarrow> event list" where
  "policyB_weekday p w d =
     [dayEvent (''HOSPITAL '' @ tpl (personForWeek p w))
        (dayOf p w d) (hospStartTime p) (hospEndTime p)]
     @ (if isLaneWeek p w \<and> hideODCWhenLane p then []
        else [dayEvent (''ODC '' @ tpl (personForWeek p w))
                (dayOf p w d) (odcStartTime p) (odcEndTime p)])
     @ (if isLaneWeek p w
        then [dayEvent ''ODC Lane'' (dayOf p w d) (laneStartTime p) (laneEndTime p)]
        else [])"

text \<open>
  The weekend block (step 3d): with \<open>sat = weekStart + 5\<close> and \<open>sun = weekStart + 6\<close>, one
  event from the weekend start time on \<open>sat\<close> to the weekend end time on \<open>sun\<close> if
  \<open>sat \<le> end\<close>, none otherwise.
\<close>

definition weekendEvents :: "params \<Rightarrow> string option \<Rightarrow> int \<Rightarrow> event list" where
  "weekendEvents p person w =
     (if dayOf p w 5 \<le> endOf p
      then [\<lparr>title = (if isLaneWeekend p w then ''Weekend Lane'' else ''Weekend '' @ tpl person),
              start = clockOn (dayOf p w 5) (weekendStartTime p),
              endt = clockOn (dayOf p w 6) (weekendEndTime p)\<rparr>]
      else [])"

text \<open>
  A parameter object for the concrete instances: Monday 1 January 2024 (day 19723),
  5/256 of a year (seven days), three people, a lane week every fourth week. The values of
  \<open>years\<close> in the instances are doubles: 1/256, 5/256, 3/128 and 9/256 of a year give 1, 7, 8
  and 12 days.
\<close>

definition demo :: params where
  "demo = \<lparr>startDate = 19723 * msPerDay, years = 5 / 256, rotationOrder = [''A'', ''B'', ''C''],
     rotationWeeks = 3,
     hospStartTime = \<lparr>hm_h = 7, hm_m = 0\<rparr>, hospEndTime = \<lparr>hm_h = 17, hm_m = 0\<rparr>,
     odcStartTime = \<lparr>hm_h = 8, hm_m = 0\<rparr>, odcEndTime = \<lparr>hm_h = 17, hm_m = 0\<rparr>,
     lanePatternWeeks = 4,
     laneStartTime = \<lparr>hm_h = 8, hm_m = 0\<rparr>, laneEndTime = \<lparr>hm_h = 12, hm_m = 0\<rparr>,
     showOff = True, doubleOffOnLaneWeeks = True, hideODCWhenLane = False,
     weekendStartTime = \<lparr>hm_h = 6, hm_m = 0\<rparr>, weekendEndTime = \<lparr>hm_h = 23, hm_m = 59\<rparr>,
     laneWeekendEvery = 2\<rparr>"

section \<open>Dates, loops and their closed forms\<close>


lemma msPerDay_pos: "0 < msPerDay" by (simp add: msPerDay_def)

lemma date_gt_end: "(addDays (weekStart p w) d > endDate p) = (totalDays p < 7 * w + d)"
proof -
  have "(startDate p + w * 7 * msPerDay + d * msPerDay > startDate p + totalDays p * msPerDay)
        = ((7 * w + d) * msPerDay > totalDays p * msPerDay)"
    by (simp add: algebra_simps)
  also have "\<dots> = (totalDays p < 7 * w + d)"
    using msPerDay_pos by (simp only: mult_less_cancel_right_pos)
  finally show ?thesis by (simp add: addDays_def weekStart_def endDate_def)
qed

lemma date_le_end: "(addDays (weekStart p w) d \<le> endDate p) = (7 * w + d \<le> totalDays p)"
  using date_gt_end [of p w d] by auto

lemma weekdayBody_append: "weekdayBody p w date shifts = shifts @ weekdayBody p w date []"
  by (simp add: weekdayBody_def Let_def push_def)

lemma weekdayBody_app_append: "weekdayBody_app p w date shifts = shifts @ weekdayBody_app p w date []"
  by (simp add: weekdayBody_app_def Let_def push_def)

declare weekdayLoop.simps [simp del] weekdayLoop_app.simps [simp del]
  weekLoop.simps [simp del] weekLoop_app.simps [simp del]

lemma filter_days_empty:
  "totalDays p < 7 * w + d \<Longrightarrow> [d'\<leftarrow>[d..4]. addDays (weekStart p w) d' \<le> endDate p] = []"
  by (auto simp: filter_empty_conv date_le_end)

lemma weekdayLoop_closed:
  "weekdayLoop p w d shifts =
     shifts @ concat (map (\<lambda>d'. weekdayBody p w (addDays (weekStart p w) d') [])
                        [d'\<leftarrow>[d..4]. addDays (weekStart p w) d' \<le> endDate p])"
proof (induction p w d shifts rule: weekdayLoop.induct)
  case (1 p week day shifts)
  show ?case
  proof (cases "day < 5")
    case False
    then show ?thesis by (simp add: weekdayLoop.simps [of p week day])
  next
    case True
    then have up: "[day..4] = day # [day + 1..4]" by (simp add: upto_rec1)
    show ?thesis
    proof (cases "addDays (weekStart p week) day > endDate p")
      case True
      then have "totalDays p < 7 * week + day" by (simp add: date_gt_end)
      then show ?thesis using True \<open>day < 5\<close>
        by (simp add: weekdayLoop.simps [of p week day] filter_days_empty)
    next
      case False
      from "1.IH" [OF True refl False]
      show ?thesis using False True up
        by (simp add: weekdayLoop.simps [of p week day] weekdayBody_append [of p week _ shifts])
    qed
  qed
qed

lemma weekdayLoop_app_closed:
  "weekdayLoop_app p w d shifts =
     shifts @ concat (map (\<lambda>d'. weekdayBody_app p w (addDays (weekStart p w) d') [])
                        [d'\<leftarrow>[d..4]. addDays (weekStart p w) d' \<le> endDate p])"
proof (induction p w d shifts rule: weekdayLoop_app.induct)
  case (1 p week day shifts)
  show ?case
  proof (cases "day < 5")
    case False
    then show ?thesis by (simp add: weekdayLoop_app.simps [of p week day])
  next
    case True
    then have up: "[day..4] = day # [day + 1..4]" by (simp add: upto_rec1)
    show ?thesis
    proof (cases "addDays (weekStart p week) day > endDate p")
      case True
      then have "totalDays p < 7 * week + day" by (simp add: date_gt_end)
      then show ?thesis using True \<open>day < 5\<close>
        by (simp add: weekdayLoop_app.simps [of p week day] filter_days_empty)
    next
      case False
      from "1.IH" [OF True refl False]
      show ?thesis using False True up
        by (simp add: weekdayLoop_app.simps [of p week day]
              weekdayBody_app_append [of p week _ shifts])
    qed
  qed
qed

lemma weekendBlock_append:
  "weekendBlock p w person shifts = shifts @ weekendBlock p w person []"
  by (simp add: weekendBlock_def Let_def push_def)

lemma weekBody_append: "weekBody p w shifts = shifts @ weekBody p w []"
proof -
  have "weekdayLoop p w 0 shifts = shifts @ weekdayLoop p w 0 []"
    by (simp add: weekdayLoop_closed [of p w 0])
  then show ?thesis
    using weekendBlock_append [of p w _ "shifts @ weekdayLoop p w 0 []"]
      weekendBlock_append [of p w _ "weekdayLoop p w 0 []"]
    by (simp add: weekBody_def)
qed

lemma weekBody_app_append: "weekBody_app p w shifts = shifts @ weekBody_app p w []"
proof -
  have "weekdayLoop_app p w 0 shifts = shifts @ weekdayLoop_app p w 0 []"
    by (simp add: weekdayLoop_app_closed [of p w 0])
  then show ?thesis
    using weekendBlock_append [of p w _ "shifts @ weekdayLoop_app p w 0 []"]
      weekendBlock_append [of p w _ "weekdayLoop_app p w 0 []"]
    by (simp add: weekBody_app_def)
qed

lemma weekLoop_closed:
  "weekLoop p w shifts = shifts @ concat (map (\<lambda>w'. weekBody p w' []) [w..weeksTotal p - 1])"
proof (induction p w shifts rule: weekLoop.induct)
  case (1 p week shifts)
  show ?case
  proof (cases "week < weeksTotal p")
    case False
    then show ?thesis by (simp add: weekLoop.simps [of p week])
  next
    case True
    then have up: "[week..weeksTotal p - 1] = week # [week + 1..weeksTotal p - 1]"
      by (simp add: upto_rec1)
    from "1.IH" [OF True] show ?thesis using True up
      by (simp add: weekLoop.simps [of p week] weekBody_append [of p week shifts])
  qed
qed

lemma weekLoop_app_closed:
  "weekLoop_app p w shifts =
     shifts @ concat (map (\<lambda>w'. weekBody_app p w' []) [w..weeksTotal p - 1])"
proof (induction p w shifts rule: weekLoop_app.induct)
  case (1 p week shifts)
  show ?case
  proof (cases "week < weeksTotal p")
    case False
    then show ?thesis by (simp add: weekLoop_app.simps [of p week])
  next
    case True
    then have up: "[week..weeksTotal p - 1] = week # [week + 1..weeksTotal p - 1]"
      by (simp add: upto_rec1)
    from "1.IH" [OF True] show ?thesis using True up
      by (simp add: weekLoop_app.simps [of p week] weekBody_app_append [of p week shifts])
  qed
qed

lemma totalDays_floor:
  "of_int (totalDays p) \<le> binary64 (years p * 365.25)
   \<and> binary64 (years p * 365.25) < of_int (totalDays p) + 1"
  unfolding totalDays_def by linarith

lemma weeksTotal_ceiling: "7 * (weeksTotal p - 1) < totalDays p \<and> totalDays p \<le> 7 * weeksTotal p"
proof -
  let ?q = "(of_int (totalDays p) :: rat) / 7"
  have a: "of_int (weeksTotal p) - 1 < ?q" and b: "?q \<le> of_int (weeksTotal p)"
    unfolding weeksTotal_def by linarith+
  from a have "(of_int (7 * (weeksTotal p - 1)) :: rat) < of_int (totalDays p)" by simp
  then have 1: "7 * (weeksTotal p - 1) < totalDays p" by (simp only: of_int_less_iff)
  from b have "(of_int (totalDays p) :: rat) \<le> of_int (7 * weeksTotal p)" by simp
  then have 2: "totalDays p \<le> 7 * weeksTotal p" by (simp only: of_int_le_iff)
  from 1 2 show ?thesis by simp
qed

lemma js_rem_nonneg: "0 \<le> a \<Longrightarrow> 0 < b \<Longrightarrow> js_rem a b = Some (a mod b)"
  by (cases "a = 0") (simp_all add: js_rem_def)

lemma js_index_mod:
  assumes "0 < length xs" "0 \<le> a"
  shows "js_index xs (js_rem a (int (length xs))) = Some (xs ! (nat a mod length xs))"
proof -
  let ?n = "int (length xs)"
  have r: "js_rem a ?n = Some (a mod ?n)" using assms by (simp add: js_rem_nonneg)
  have b: "0 \<le> a mod ?n" "a mod ?n < ?n" using assms by simp_all
  have "nat (a mod ?n) = nat a mod length xs"
    using assms by (simp add: nat_mod_distrib)
  with r b show ?thesis by (simp add: js_index_def)
qed

lemma weekdayLoop_days:
  "weekdayLoop p w 0 shifts =
     shifts @ concat (map (\<lambda>d. weekdayBody p w (addDays (weekStart p w) d) []) (inRangeDays p w))"
  by (simp only: weekdayLoop_closed [of p w 0 shifts] inRangeDays_def)

lemma weekdayLoop_app_days:
  "weekdayLoop_app p w 0 shifts =
     shifts @ concat (map (\<lambda>d. weekdayBody_app p w (addDays (weekStart p w) d) []) (inRangeDays p w))"
  by (simp only: weekdayLoop_app_closed [of p w 0 shifts] inRangeDays_def)

lemma dayLoop_nothing:
  assumes "totalDays p < 7 * w + d"
  shows "weekdayLoop p w d shifts = shifts" and "weekdayLoop_app p w d shifts = shifts"
  using assms
  by (simp_all add: weekdayLoop_closed [of p w d] weekdayLoop_app_closed [of p w d]
        filter_days_empty)

lemma weekdayBody_app_events:
  "weekdayBody_app p w date [] =
     [windowEvent (''HOSPITAL '' @ tpl (personForWeek p w)) date (hospStartTime p) date (hospEndTime p)]
     @ (if isLaneWeek p w \<and> hideODCWhenLane p then []
        else [windowEvent (''ODC '' @ tpl (personForWeek p w)) date (odcStartTime p) date (odcEndTime p)])
     @ (if isLaneWeek p w
        then [windowEvent ''ODC Lane'' date (laneStartTime p) date (laneEndTime p)]
        else [])"
  by (simp add: weekdayBody_app_def Let_def push_def)

lemma weekdayBody_lane:
  assumes "isLaneWeek p w"
  shows "weekdayBody p w date [] =
     [windowEvent (''HOSPITAL '' @ tpl (hospitalForWeek (rotationOrder p) w))
        date (hospStartTime p) date (hospEndTime p),
      windowEvent ''ODC Lane'' date (laneStartTime p) date (laneEndTime p)]
     @ (if showOff p
        then [windowEvent (''OFF '' @ tpl (odcForWeek (rotationOrder p) w))
                date (odcStartTime p) date (odcEndTime p)]
        else [])
     @ (if showOff p \<and> doubleOffOnLaneWeeks p
        then [windowEvent (''OFF '' @ tpl (offForWeek (rotationOrder p) w))
                date (odcStartTime p) date (odcEndTime p)]
        else [])"
  using assms by (simp add: weekdayBody_def Let_def push_def)

lemma weekdayBody_lane_double:
  assumes "isLaneWeek p w" "showOff p" "doubleOffOnLaneWeeks p"
  shows "weekdayBody p w date [] =
     [windowEvent (''HOSPITAL '' @ tpl (hospitalForWeek (rotationOrder p) w))
        date (hospStartTime p) date (hospEndTime p),
      windowEvent ''ODC Lane'' date (laneStartTime p) date (laneEndTime p),
      windowEvent (''OFF '' @ tpl (odcForWeek (rotationOrder p) w))
        date (odcStartTime p) date (odcEndTime p),
      windowEvent (''OFF '' @ tpl (offForWeek (rotationOrder p) w))
        date (odcStartTime p) date (odcEndTime p)]"
  using assms by (simp add: weekdayBody_def Let_def push_def)

lemma weekdayBody_no_lane:
  assumes "\<not> isLaneWeek p w"
  shows "weekdayBody p w date [] =
     [windowEvent (''HOSPITAL '' @ tpl (hospitalForWeek (rotationOrder p) w))
        date (hospStartTime p) date (hospEndTime p),
      windowEvent (''ODC '' @ tpl (odcForWeek (rotationOrder p) w))
        date (odcStartTime p) date (odcEndTime p)]
     @ (if showOff p
        then [windowEvent (''OFF '' @ tpl (offForWeek (rotationOrder p) w))
                date (odcStartTime p) date (odcEndTime p)]
        else [])"
  using assms by (simp add: weekdayBody_def Let_def push_def)

lemma weekdayBody_app_no_lane:
  assumes "\<not> isLaneWeek p w"
  shows "weekdayBody_app p w date [] =
     [windowEvent (''HOSPITAL '' @ tpl (personForWeek p w)) date (hospStartTime p) date (hospEndTime p),
      windowEvent (''ODC '' @ tpl (personForWeek p w)) date (odcStartTime p) date (odcEndTime p)]"
  using assms by (simp add: weekdayBody_app_def Let_def push_def)

lemma weekendBlock_spec: "weekendBlock p w person shifts = shifts @ weekendSpec p person w"
  by (simp add: weekendBlock_def weekendSpec_def Let_def push_def)

lemma weekendSpec_after:
  assumes "weeksTotal p \<le> w"
  shows "weekendSpec p person w = []"
proof -
  have "totalDays p \<le> 7 * weeksTotal p" using weeksTotal_ceiling [of p] by simp
  with assms have "\<not> 7 * w + 5 \<le> totalDays p" by simp
  then show ?thesis by (simp add: weekendSpec_def date_le_end)
qed

lemma js_rem_zero_left: "js_rem 0 k = Some 0 \<longleftrightarrow> k \<noteq> 0"
  by (simp add: js_rem_def)

lemma js_rem_zero_right: "js_rem w 0 = None"
  by (simp add: js_rem_def)

lemma upto_0_4: "[0..4] = [0, 1, 2, 3, 4::int]"
  by (simp add: upto_rec1)

lemma generateSchedule_too_short:
  "length (rotationOrder p) < 3 \<Longrightarrow>
   generateSchedule p =
     Inl (Error ''Rotation order must include at least 3 people (Hospital / ODC / OFF).'')"
  by (simp add: generateSchedule_def)

lemma one_week_events:
  assumes "rotationOrder p = [a, b, c]" and "totalDays p = 7" and "lanePatternWeeks p = 4"
    and "showOff p" and "doubleOffOnLaneWeeks p"
  shows "generateSchedule p =
     Inr (sortByStart (concat (map (\<lambda>d.
       [windowEvent (''HOSPITAL '' @ a)
          (addDays (startDate p) d) (hospStartTime p) (addDays (startDate p) d) (hospEndTime p),
        windowEvent ''ODC Lane''
          (addDays (startDate p) d) (laneStartTime p) (addDays (startDate p) d) (laneEndTime p),
        windowEvent (''OFF '' @ b)
          (addDays (startDate p) d) (odcStartTime p) (addDays (startDate p) d) (odcEndTime p),
        windowEvent (''OFF '' @ c)
          (addDays (startDate p) d) (odcStartTime p) (addDays (startDate p) d) (odcEndTime p)])
       [0, 1, 2, 3, 4])
       @ [windowEvent (if laneWeekendEvery p = 0 then ''Weekend '' @ a else ''Weekend Lane'')
            (addDays (startDate p) 5) (weekendStartTime p)
            (addDays (startDate p) 6) (weekendEndTime p)]))
   \<and> (\<exists>evs. generateSchedule p = Inr evs \<and> length evs = 21)"
proof -
  have W: "weeksTotal p = 1"
    using weeksTotal_ceiling [of p] assms(2) by simp
  have ws: "weekStart p 0 = startDate p" by (simp add: weekStart_def addDays_def)
  have lane: "isLaneWeek p 0" using assms(3) by (simp add: isLaneWeek_def js_rem_def)
  have lw: "isLaneWeekend p 0 = (laneWeekendEvery p \<noteq> 0)"
    by (simp add: isLaneWeekend_def js_rem_zero_left)
  have h: "hospitalForWeek (rotationOrder p) 0 = Some a"
    and o: "odcForWeek (rotationOrder p) 0 = Some b"
    and f: "offForWeek (rotationOrder p) 0 = Some c"
    using assms(1)
    by (simp_all add: hospitalForWeek_def odcForWeek_def offForWeek_def js_rem_def js_index_def)
  have days: "inRangeDays p 0 = [0, 1, 2, 3, 4]"
    using assms(2) by (simp add: inRangeDays_def date_le_end upto_0_4)
  have sat: "addDays (weekStart p 0) 5 \<le> endDate p"
    using assms(2) by (simp add: date_le_end)
  have wd: "weekdayLoop p 0 0 [] = concat (map (\<lambda>d.
       [windowEvent (''HOSPITAL '' @ a)
          (addDays (startDate p) d) (hospStartTime p) (addDays (startDate p) d) (hospEndTime p),
        windowEvent ''ODC Lane''
          (addDays (startDate p) d) (laneStartTime p) (addDays (startDate p) d) (laneEndTime p),
        windowEvent (''OFF '' @ b)
          (addDays (startDate p) d) (odcStartTime p) (addDays (startDate p) d) (odcEndTime p),
        windowEvent (''OFF '' @ c)
          (addDays (startDate p) d) (odcStartTime p) (addDays (startDate p) d) (odcEndTime p)])
       [0, 1, 2, 3, 4])"
    by (simp add: weekdayLoop_days [of p 0 "[]"] days
          weekdayBody_lane_double [OF lane assms(4,5)] ws h o f tpl_def)
  have we: "weekendSpec p (Some a) 0 =
      [windowEvent (if laneWeekendEvery p = 0 then ''Weekend '' @ a else ''Weekend Lane'')
            (addDays (startDate p) 5) (weekendStartTime p)
            (addDays (startDate p) 6) (weekendEndTime p)]"
    using sat by (simp add: weekendSpec_def lw ws tpl_def)
  have "weekLoop p 0 [] = weekBody p 0 []"
    by (simp add: weekLoop_closed [of p 0 "[]"] W)
  also have "\<dots> = weekdayLoop p 0 0 [] @ weekendSpec p (Some a) 0"
    by (simp add: weekBody_def weekendBlock_spec h)
  finally have wl: "weekLoop p 0 [] = weekdayLoop p 0 0 [] @ weekendSpec p (Some a) 0" .
  have g: "generateSchedule p = Inr (sortByStart (weekLoop p 0 []))"
    using assms(1) by (simp add: generateSchedule_def)
  have len: "length (sortByStart (weekLoop p 0 [])) = 21"
    by (simp add: sortByStart_def wl wd we)
  show ?thesis using g len by (simp add: wl wd we)
qed

lemma no_days_no_events:
  assumes "years p = 0"
  shows "weekLoop p 0 [] = []"
proof -
  have "totalDays p = 0" using assms by (simp add: totalDays_def binary64_def)
  then have "weeksTotal p = 0" by (simp add: weeksTotal_def)
  then show ?thesis by (simp add: weekLoop.simps [of p 0])
qed

subsection \<open>Doubles and dates on known values\<close>

text \<open>The rounding to doubles on known values.\<close>

lemma binary64_examples:
  "binary64 (1 / 50) = 5764607523034235 / 288230376151711744
   \<and> binary64 (1 / 10) = 3602879701896397 / 36028797018963968
   \<and> binary64 (- 1 / 3) = - 6004799503160661 / 18014398509481984
   \<and> binary64 9007199254740993 = 9007199254740992
   \<and> binary64 9007199254740995 = 9007199254740996
   \<and> binary64 (binary64 (1 / 50) * 365.25) = 1028087352435671 / 140737488355328
   \<and> binary64 (2190280629705681 / 10 ^ 17) = 6313054097778765 / 288230376151711744
   \<and> binary64 (5 / 256) = 5 / 256 \<and> binary64 (3 / 128) = 3 / 128
   \<and> binary64 (9 / 256) = 9 / 256 \<and> binary64 (1 / 256) = 1 / 256"
  by code_simp

subsection \<open>The export as a document\<close>

text \<open>The calendar conversion on known dates, leap days and the turn of a century included.\<close>

lemma civil_examples:
  "civil 0 = (1970, 1, 1) \<and> civil (- 1) = (1969, 12, 31) \<and> civil 11016 = (2000, 2, 29)
   \<and> civil 19723 = (2024, 1, 1) \<and> civil 19782 = (2024, 2, 29) \<and> civil 20088 = (2024, 12, 31)
   \<and> civil (- 25567) = (1900, 1, 1) \<and> civil (- 25509) = (1900, 2, 28)
   \<and> civil (- 25508) = (1900, 3, 1) \<and> civil (- 354650) = (999, 1, 1)"
  by code_simp


text \<open>
  The document that \<^verbatim>\<open>exportICS\<close> returns: the three header lines, one block of seven
  lines for each event in the order of the input, the footer, joined by CRLF.
\<close>

lemma eventLoop_closed:
  "eventLoop uuid now i es lines =
     lines @ concat (map (\<lambda>(j, e).
       [''BEGIN:VEVENT'', ''UID:'' @ uuid j, ''DTSTAMP:'' @ toICSDateTime (now j),
        ''SUMMARY:'' @ title e, ''DTSTART:'' @ toICSDateTime (start e),
        ''DTEND:'' @ toICSDateTime (endt e), ''END:VEVENT''])
       (enumerate i es))"
  by (induction es arbitrary: i lines) (simp_all add: Let_def push_def)

lemma exportICS_document:
  "exportICS uuid now events =
     join CRLF
       ([''BEGIN:VCALENDAR'', ''VERSION:2.0'', ''PRODID:-//ShiftScheduler//EN'']
        @ concat (map (\<lambda>(j, e).
            [''BEGIN:VEVENT'', ''UID:'' @ uuid j, ''DTSTAMP:'' @ toICSDateTime (now j),
             ''SUMMARY:'' @ title e, ''DTSTART:'' @ toICSDateTime (start e),
             ''DTEND:'' @ toICSDateTime (endt e), ''END:VEVENT''])
            (enumerate 0 events))
        @ [''END:VCALENDAR''])"
  by (simp add: exportICS_def Let_def push_def eventLoop_closed)

section \<open>The claims\<close>

text \<open>
  C1. Under Policy A, for every week index \<open>w \<ge> 0\<close> and every rotation order of length
  \<open>n \<ge> 3\<close>, the hospital person is \<open>order[w mod n]\<close>, the on-call person is
  \<open>order[(w+1) mod n]\<close> and the off person is \<open>order[(w+2) mod n]\<close>; from one week to the
  next each role moves to the next position of the order, cyclically.
\<close>

theorem rotation_three_roles:
  assumes "3 \<le> length order" and "0 \<le> w"
  shows "hospitalForWeek order w = Some (order ! (nat w mod length order))
       \<and> odcForWeek order w = Some (order ! ((nat w + 1) mod length order))
       \<and> offForWeek order w = Some (order ! ((nat w + 2) mod length order))
       \<and> hospitalForWeek order (w + 1) = Some (order ! ((nat w mod length order + 1) mod length order))
       \<and> odcForWeek order (w + 1) = Some (order ! (((nat w + 1) mod length order + 1) mod length order))
       \<and> offForWeek order (w + 1) = Some (order ! (((nat w + 2) mod length order + 1) mod length order))"
proof -
  have n: "0 < length order" using assms(1) by (cases order) simp_all
  have k: "nat (w + int j) = nat w + j" for j using assms(2) by (simp add: nat_add_distrib)
  have role: "js_index order (js_rem (w + int j) (int (length order)))
                = Some (order ! ((nat w + j) mod length order))" for j
    using js_index_mod [OF n, of "w + int j"] assms(2) by (simp add: k)
  have step: "((nat w + j) mod length order + 1) mod length order
                = (nat w + (j + 1)) mod length order" for j
    by (simp add: mod_Suc_eq)
  have h: "hospitalForWeek order w = Some (order ! (nat w mod length order))"
    using role [of 0] by (simp add: hospitalForWeek_def)
  have c: "odcForWeek order w = Some (order ! ((nat w + 1) mod length order))"
    using role [of 1] by (simp add: odcForWeek_def)
  have f: "offForWeek order w = Some (order ! ((nat w + 2) mod length order))"
    using role [of 2] by (simp add: offForWeek_def)
  have h1: "hospitalForWeek order (w + 1)
              = Some (order ! ((nat w mod length order + 1) mod length order))"
    using role [of 1] step [of 0] by (simp add: hospitalForWeek_def)
  have c1: "odcForWeek order (w + 1)
              = Some (order ! (((nat w + 1) mod length order + 1) mod length order))"
    using role [of 2] step [of 1] by (simp add: odcForWeek_def add.assoc)
  have f1: "offForWeek order (w + 1)
              = Some (order ! (((nat w + 2) mod length order + 1) mod length order))"
    using role [of 3] step [of 2] by (simp add: offForWeek_def add.assoc)
  from h c f h1 c1 f1 show ?thesis by simp
qed

theorem rotation_three_roles_witness:
  "3 \<le> length [''A'', ''B'', ''C'', ''D''] \<and> (0::int) \<le> 5
   \<and> hospitalForWeek [''A'', ''B'', ''C'', ''D''] 5 = Some ''B''
   \<and> odcForWeek [''A'', ''B'', ''C'', ''D''] 5 = Some ''C''
   \<and> offForWeek [''A'', ''B'', ''C'', ''D''] 5 = Some ''D''
   \<and> hospitalForWeek [''A'', ''B'', ''C'', ''D''] 6 = Some ''C''
   \<and> odcForWeek [''A'', ''B'', ''C'', ''D''] 6 = Some ''D''
   \<and> offForWeek [''A'', ''B'', ''C'', ''D''] 6 = Some ''A''"
  using rotation_three_roles [of "[''A'', ''B'', ''C'', ''D'']" 5] by simp

text \<open>
  C2. The claim asks that an empty or too short rotation order makes generation fail before
  any event is generated. The three-role generator does so (\<open>generateSchedule_too_short\<close>).
  The single-role generator of \<^verbatim>\<open>app.js\<close> validates nothing: for the empty rotation order
  and a start on 1 January 2024 with a span of one day it returns six events, the person
  printed as \<^verbatim>\<open>undefined\<close>, where the three-role generator throws.
\<close>

theorem app_accepts_empty_rotation:
  "rotationOrder (demo\<lparr>years := 1 / 256, rotationOrder := [], rotationWeeks := 1\<rparr>) = []
   \<and> generateSchedule (demo\<lparr>years := 1 / 256, rotationOrder := [], rotationWeeks := 1\<rparr>) =
     Inl (Error ''Rotation order must include at least 3 people (Hospital / ODC / OFF).'')
   \<and> generateSchedule_app (demo\<lparr>years := 1 / 256, rotationOrder := [], rotationWeeks := 1\<rparr>) =
     Inr [\<lparr>title = ''HOSPITAL undefined'', start = 1704092400000, endt = 1704128400000\<rparr>,
          \<lparr>title = ''ODC undefined'', start = 1704096000000, endt = 1704128400000\<rparr>,
          \<lparr>title = ''ODC Lane'', start = 1704096000000, endt = 1704110400000\<rparr>,
          \<lparr>title = ''HOSPITAL undefined'', start = 1704178800000, endt = 1704214800000\<rparr>,
          \<lparr>title = ''ODC undefined'', start = 1704182400000, endt = 1704214800000\<rparr>,
          \<lparr>title = ''ODC Lane'', start = 1704182400000, endt = 1704196800000\<rparr>]"
  by code_simp

text \<open>
  C3. Under Policy B, for every in-range weekday of every week, after the "HOSPITAL" event:
  an "ODC {person}" event in the on-call window is emitted unless the week is a lane week
  and \<open>hideODCWhenLane\<close> is set, and on a lane week an "ODC Lane" event in the lane window is
  emitted as well, whatever the flag. The schedule that the generator of \<^verbatim>\<open>app.js\<close> returns
  is the sorted list of exactly these events, for the weeks \<open>0 .. weeksTotal - 1\<close> and their
  in-range weekdays, and of the weekend events.
\<close>

theorem policyB_weekday_events:
  "generateSchedule_app p =
     Inr (sortByStart (concat (map (\<lambda>w.
       concat (map (\<lambda>d.
         [dayEvent (''HOSPITAL '' @ tpl (personForWeek p w))
            (dayOf p w d) (hospStartTime p) (hospEndTime p)]
         @ (if isLaneWeek p w \<and> hideODCWhenLane p then []
            else [dayEvent (''ODC '' @ tpl (personForWeek p w))
                    (dayOf p w d) (odcStartTime p) (odcEndTime p)])
         @ (if isLaneWeek p w
            then [dayEvent ''ODC Lane'' (dayOf p w d) (laneStartTime p) (laneEndTime p)]
            else []))
         [d\<leftarrow>[0..4]. dayOf p w d \<le> endOf p])
       @ weekendEvents p (personForWeek p w) w)
       [0..weeksTotal p - 1])))"
proof -
  have day: "addDays (weekStart p w) d = dayOf p w d" for w d
    by (simp add: addDays_def weekStart_def dayOf_def msPerDay_def algebra_simps)
  have fin: "endDate p = endOf p"
    by (simp add: endDate_def addDays_def endOf_def msPerDay_def)
  have clock: "setHours d (hm_h t) (hm_m t) = clockOn d t" for d t
  proof -
    have "d div 86400000 * 86400000 = d - d mod 86400000"
      by (simp add: algebra_simps minus_mod_eq_mult_div)
    then show ?thesis by (simp add: setHours_def clockOn_def msPerDay_def)
  qed
  have win: "windowEvent t d t1 d t2 = dayEvent t d t1 t2" for t d t1 t2
    by (simp add: windowEvent_def buildEvent_def dayEvent_def clock)
  have weekend: "weekendBlock p w person xs = xs @ weekendEvents p person w" for w person xs
    by (simp add: weekendBlock_def Let_def push_def weekendEvents_def windowEvent_def
          buildEvent_def clock day fin)
  have body: "weekdayBody_app p w date [] =
         [dayEvent (''HOSPITAL '' @ tpl (personForWeek p w))
            date (hospStartTime p) (hospEndTime p)]
         @ (if isLaneWeek p w \<and> hideODCWhenLane p then []
            else [dayEvent (''ODC '' @ tpl (personForWeek p w))
                    date (odcStartTime p) (odcEndTime p)])
         @ (if isLaneWeek p w
            then [dayEvent ''ODC Lane'' date (laneStartTime p) (laneEndTime p)]
            else [])" for w date
    by (simp add: weekdayBody_app_def Let_def push_def win)
  have week: "weekBody_app p w [] =
       concat (map (\<lambda>d.
         [dayEvent (''HOSPITAL '' @ tpl (personForWeek p w))
            (dayOf p w d) (hospStartTime p) (hospEndTime p)]
         @ (if isLaneWeek p w \<and> hideODCWhenLane p then []
            else [dayEvent (''ODC '' @ tpl (personForWeek p w))
                    (dayOf p w d) (odcStartTime p) (odcEndTime p)])
         @ (if isLaneWeek p w
            then [dayEvent ''ODC Lane'' (dayOf p w d) (laneStartTime p) (laneEndTime p)]
            else []))
         [d\<leftarrow>[0..4]. dayOf p w d \<le> endOf p])
       @ weekendEvents p (personForWeek p w) w" for w
    by (simp only: weekBody_app_def weekend weekdayLoop_app_closed [of p w 0 "[]"] body day fin
          append_Nil)
  show ?thesis
    by (simp only: generateSchedule_app_def weekLoop_app_closed [of p 0 "[]"] week append_Nil)
qed

theorem policyB_weekday_events_witness:
  "generateSchedule_app (demo\<lparr>years := 3 / 128, hideODCWhenLane := True\<rparr>) =
     Inr [\<lparr>title = ''HOSPITAL A'', start = 1704092400000, endt = 1704128400000\<rparr>,
        \<lparr>title = ''ODC Lane'', start = 1704096000000, endt = 1704110400000\<rparr>,
        \<lparr>title = ''HOSPITAL A'', start = 1704178800000, endt = 1704214800000\<rparr>,
        \<lparr>title = ''ODC Lane'', start = 1704182400000, endt = 1704196800000\<rparr>,
        \<lparr>title = ''HOSPITAL A'', start = 1704265200000, endt = 1704301200000\<rparr>,
        \<lparr>title = ''ODC Lane'', start = 1704268800000, endt = 1704283200000\<rparr>,
        \<lparr>title = ''HOSPITAL A'', start = 1704351600000, endt = 1704387600000\<rparr>,
        \<lparr>title = ''ODC Lane'', start = 1704355200000, endt = 1704369600000\<rparr>,
        \<lparr>title = ''HOSPITAL A'', start = 1704438000000, endt = 1704474000000\<rparr>,
        \<lparr>title = ''ODC Lane'', start = 1704441600000, endt = 1704456000000\<rparr>,
        \<lparr>title = ''Weekend Lane'', start = 1704520800000, endt = 1704671940000\<rparr>,
        \<lparr>title = ''HOSPITAL B'', start = 1704697200000, endt = 1704733200000\<rparr>,
        \<lparr>title = ''ODC B'', start = 1704700800000, endt = 1704733200000\<rparr>,
        \<lparr>title = ''HOSPITAL B'', start = 1704783600000, endt = 1704819600000\<rparr>,
        \<lparr>title = ''ODC B'', start = 1704787200000, endt = 1704819600000\<rparr>]
   \<and> generateSchedule_app demo =
     Inr [\<lparr>title = ''HOSPITAL A'', start = 1704092400000, endt = 1704128400000\<rparr>,
        \<lparr>title = ''ODC A'', start = 1704096000000, endt = 1704128400000\<rparr>,
        \<lparr>title = ''ODC Lane'', start = 1704096000000, endt = 1704110400000\<rparr>,
        \<lparr>title = ''HOSPITAL A'', start = 1704178800000, endt = 1704214800000\<rparr>,
        \<lparr>title = ''ODC A'', start = 1704182400000, endt = 1704214800000\<rparr>,
        \<lparr>title = ''ODC Lane'', start = 1704182400000, endt = 1704196800000\<rparr>,
        \<lparr>title = ''HOSPITAL A'', start = 1704265200000, endt = 1704301200000\<rparr>,
        \<lparr>title = ''ODC A'', start = 1704268800000, endt = 1704301200000\<rparr>,
        \<lparr>title = ''ODC Lane'', start = 1704268800000, endt = 1704283200000\<rparr>,
        \<lparr>title = ''HOSPITAL A'', start = 1704351600000, endt = 1704387600000\<rparr>,
        \<lparr>title = ''ODC A'', start = 1704355200000, endt = 1704387600000\<rparr>,
        \<lparr>title = ''ODC Lane'', start = 1704355200000, endt = 1704369600000\<rparr>,
        \<lparr>title = ''HOSPITAL A'', start = 1704438000000, endt = 1704474000000\<rparr>,
        \<lparr>title = ''ODC A'', start = 1704441600000, endt = 1704474000000\<rparr>,
        \<lparr>title = ''ODC Lane'', start = 1704441600000, endt = 1704456000000\<rparr>,
        \<lparr>title = ''Weekend Lane'', start = 1704520800000, endt = 1704671940000\<rparr>]"
proof -
  have t: "totalDays (demo\<lparr>years := 3 / 128, hideODCWhenLane := True\<rparr>) = 8"
    "weeksTotal (demo\<lparr>years := 3 / 128, hideODCWhenLane := True\<rparr>) = 2"
    "totalDays demo = 7" "weeksTotal demo = 1"
    by code_simp+
  have described:  "generateSchedule_app (demo\<lparr>years := 3 / 128, hideODCWhenLane := True\<rparr>) =
       Inr [\<lparr>title = ''HOSPITAL A'', start = 1704092400000, endt = 1704128400000\<rparr>,
          \<lparr>title = ''ODC Lane'', start = 1704096000000, endt = 1704110400000\<rparr>,
          \<lparr>title = ''HOSPITAL A'', start = 1704178800000, endt = 1704214800000\<rparr>,
          \<lparr>title = ''ODC Lane'', start = 1704182400000, endt = 1704196800000\<rparr>,
          \<lparr>title = ''HOSPITAL A'', start = 1704265200000, endt = 1704301200000\<rparr>,
          \<lparr>title = ''ODC Lane'', start = 1704268800000, endt = 1704283200000\<rparr>,
          \<lparr>title = ''HOSPITAL A'', start = 1704351600000, endt = 1704387600000\<rparr>,
          \<lparr>title = ''ODC Lane'', start = 1704355200000, endt = 1704369600000\<rparr>,
          \<lparr>title = ''HOSPITAL A'', start = 1704438000000, endt = 1704474000000\<rparr>,
          \<lparr>title = ''ODC Lane'', start = 1704441600000, endt = 1704456000000\<rparr>,
          \<lparr>title = ''Weekend Lane'', start = 1704520800000, endt = 1704671940000\<rparr>,
          \<lparr>title = ''HOSPITAL B'', start = 1704697200000, endt = 1704733200000\<rparr>,
          \<lparr>title = ''ODC B'', start = 1704700800000, endt = 1704733200000\<rparr>,
          \<lparr>title = ''HOSPITAL B'', start = 1704783600000, endt = 1704819600000\<rparr>,
          \<lparr>title = ''ODC B'', start = 1704787200000, endt = 1704819600000\<rparr>]
     \<and> generateSchedule_app demo =
       Inr [\<lparr>title = ''HOSPITAL A'', start = 1704092400000, endt = 1704128400000\<rparr>,
          \<lparr>title = ''ODC A'', start = 1704096000000, endt = 1704128400000\<rparr>,
          \<lparr>title = ''ODC Lane'', start = 1704096000000, endt = 1704110400000\<rparr>,
          \<lparr>title = ''HOSPITAL A'', start = 1704178800000, endt = 1704214800000\<rparr>,
          \<lparr>title = ''ODC A'', start = 1704182400000, endt = 1704214800000\<rparr>,
          \<lparr>title = ''ODC Lane'', start = 1704182400000, endt = 1704196800000\<rparr>,
          \<lparr>title = ''HOSPITAL A'', start = 1704265200000, endt = 1704301200000\<rparr>,
          \<lparr>title = ''ODC A'', start = 1704268800000, endt = 1704301200000\<rparr>,
          \<lparr>title = ''ODC Lane'', start = 1704268800000, endt = 1704283200000\<rparr>,
          \<lparr>title = ''HOSPITAL A'', start = 1704351600000, endt = 1704387600000\<rparr>,
          \<lparr>title = ''ODC A'', start = 1704355200000, endt = 1704387600000\<rparr>,
          \<lparr>title = ''ODC Lane'', start = 1704355200000, endt = 1704369600000\<rparr>,
          \<lparr>title = ''HOSPITAL A'', start = 1704438000000, endt = 1704474000000\<rparr>,
          \<lparr>title = ''ODC A'', start = 1704441600000, endt = 1704474000000\<rparr>,
          \<lparr>title = ''ODC Lane'', start = 1704441600000, endt = 1704456000000\<rparr>,
          \<lparr>title = ''Weekend Lane'', start = 1704520800000, endt = 1704671940000\<rparr>]"
    by (simp only: policyB_weekday_events weekendEvents_def endOf_def t) code_simp
  have computed:  "generateSchedule_app (demo\<lparr>years := 3 / 128, hideODCWhenLane := True\<rparr>) =
       Inr [\<lparr>title = ''HOSPITAL A'', start = 1704092400000, endt = 1704128400000\<rparr>,
          \<lparr>title = ''ODC Lane'', start = 1704096000000, endt = 1704110400000\<rparr>,
          \<lparr>title = ''HOSPITAL A'', start = 1704178800000, endt = 1704214800000\<rparr>,
          \<lparr>title = ''ODC Lane'', start = 1704182400000, endt = 1704196800000\<rparr>,
          \<lparr>title = ''HOSPITAL A'', start = 1704265200000, endt = 1704301200000\<rparr>,
          \<lparr>title = ''ODC Lane'', start = 1704268800000, endt = 1704283200000\<rparr>,
          \<lparr>title = ''HOSPITAL A'', start = 1704351600000, endt = 1704387600000\<rparr>,
          \<lparr>title = ''ODC Lane'', start = 1704355200000, endt = 1704369600000\<rparr>,
          \<lparr>title = ''HOSPITAL A'', start = 1704438000000, endt = 1704474000000\<rparr>,
          \<lparr>title = ''ODC Lane'', start = 1704441600000, endt = 1704456000000\<rparr>,
          \<lparr>title = ''Weekend Lane'', start = 1704520800000, endt = 1704671940000\<rparr>,
          \<lparr>title = ''HOSPITAL B'', start = 1704697200000, endt = 1704733200000\<rparr>,
          \<lparr>title = ''ODC B'', start = 1704700800000, endt = 1704733200000\<rparr>,
          \<lparr>title = ''HOSPITAL B'', start = 1704783600000, endt = 1704819600000\<rparr>,
          \<lparr>title = ''ODC B'', start = 1704787200000, endt = 1704819600000\<rparr>]
     \<and> generateSchedule_app demo =
       Inr [\<lparr>title = ''HOSPITAL A'', start = 1704092400000, endt = 1704128400000\<rparr>,
          \<lparr>title = ''ODC A'', start = 1704096000000, endt = 1704128400000\<rparr>,
          \<lparr>title = ''ODC Lane'', start = 1704096000000, endt = 1704110400000\<rparr>,
          \<lparr>title = ''HOSPITAL A'', start = 1704178800000, endt = 1704214800000\<rparr>,
          \<lparr>title = ''ODC A'', start = 1704182400000, endt = 1704214800000\<rparr>,
          \<lparr>title = ''ODC Lane'', start = 1704182400000, endt = 1704196800000\<rparr>,
          \<lparr>title = ''HOSPITAL A'', start = 1704265200000, endt = 1704301200000\<rparr>,
          \<lparr>title = ''ODC A'', start = 1704268800000, endt = 1704301200000\<rparr>,
          \<lparr>title = ''ODC Lane'', start = 1704268800000, endt = 1704283200000\<rparr>,
          \<lparr>title = ''HOSPITAL A'', start = 1704351600000, endt = 1704387600000\<rparr>,
          \<lparr>title = ''ODC A'', start = 1704355200000, endt = 1704387600000\<rparr>,
          \<lparr>title = ''ODC Lane'', start = 1704355200000, endt = 1704369600000\<rparr>,
          \<lparr>title = ''HOSPITAL A'', start = 1704438000000, endt = 1704474000000\<rparr>,
          \<lparr>title = ''ODC A'', start = 1704441600000, endt = 1704474000000\<rparr>,
          \<lparr>title = ''ODC Lane'', start = 1704441600000, endt = 1704456000000\<rparr>,
          \<lparr>title = ''Weekend Lane'', start = 1704520800000, endt = 1704671940000\<rparr>]"
    by code_simp
  from described computed show ?thesis by simp
qed

text \<open>
  C4. For every week index \<open>w\<close>, exactly one weekend event is emitted when
  \<open>sat = weekStart + 5\<close> satisfies \<open>sat \<le> end\<close>, and none when \<open>sat > end\<close>; the event spans
  the weekend start time on Saturday to the weekend end time on Sunday, and is titled
  "Weekend Lane" on a lane weekend and "Weekend {person}" otherwise, with the hospital
  person (Policy A) or the duty person (Policy B). Both generators return the sorted list
  of, week by week for the weeks \<open>0 .. weeksTotal - 1\<close>, the weekday events followed by this
  one event or none; and from week \<open>weeksTotal\<close> on Saturday is after the end.
\<close>

theorem weekend_event_per_week:
  "(3 \<le> length (rotationOrder p) \<longrightarrow>
      generateSchedule p =
        Inr (sortByStart (concat (map (\<lambda>w.
          concat (map (policyA_weekday p w) (inRangeWeekdays p w))
          @ (if dayOf p w 5 \<le> endOf p
             then [\<lparr>title = (if isLaneWeekend p w then ''Weekend Lane''
                              else ''Weekend '' @ tpl (hospitalForWeek (rotationOrder p) w)),
                     start = clockOn (dayOf p w 5) (weekendStartTime p),
                     endt = clockOn (dayOf p w 6) (weekendEndTime p)\<rparr>]
             else []))
          [0..weeksTotal p - 1]))))
   \<and> generateSchedule_app p =
        Inr (sortByStart (concat (map (\<lambda>w.
          concat (map (policyB_weekday p w) (inRangeWeekdays p w))
          @ (if dayOf p w 5 \<le> endOf p
             then [\<lparr>title = (if isLaneWeekend p w then ''Weekend Lane''
                              else ''Weekend '' @ tpl (personForWeek p w)),
                     start = clockOn (dayOf p w 5) (weekendStartTime p),
                     endt = clockOn (dayOf p w 6) (weekendEndTime p)\<rparr>]
             else []))
          [0..weeksTotal p - 1])))
   \<and> (weeksTotal p \<le> w \<longrightarrow> endOf p < dayOf p w 5)"
proof -
  have day: "addDays (weekStart p w) d = dayOf p w d" for w d
    by (simp add: addDays_def weekStart_def dayOf_def msPerDay_def algebra_simps)
  have fin: "endDate p = endOf p"
    by (simp add: endDate_def addDays_def endOf_def msPerDay_def)
  have clock: "setHours d (hm_h t) (hm_m t) = clockOn d t" for d t
  proof -
    have "d div 86400000 * 86400000 = d - d mod 86400000"
      by (simp add: algebra_simps minus_mod_eq_mult_div)
    then show ?thesis by (simp add: setHours_def clockOn_def msPerDay_def)
  qed
  have win: "windowEvent t d t1 d t2 = dayEvent t d t1 t2" for t d t1 t2
    by (simp add: windowEvent_def buildEvent_def dayEvent_def clock)
  have weekend: "weekendBlock p w person xs = xs @ weekendEvents p person w" for w person xs
    by (simp add: weekendBlock_def Let_def push_def weekendEvents_def windowEvent_def
          buildEvent_def clock day fin)
  have bodyA: "weekdayBody p w (dayOf p w d) [] = policyA_weekday p w d" for w d
    by (simp add: weekdayBody_def Let_def push_def win policyA_weekday_def)
  have bodyB: "weekdayBody_app p w (dayOf p w d) [] = policyB_weekday p w d" for w d
    by (simp add: weekdayBody_app_def Let_def push_def win policyB_weekday_def)
  have weekA: "weekBody p w [] =
          concat (map (policyA_weekday p w) (inRangeWeekdays p w))
          @ (if dayOf p w 5 \<le> endOf p
             then [\<lparr>title = (if isLaneWeekend p w then ''Weekend Lane''
                              else ''Weekend '' @ tpl (hospitalForWeek (rotationOrder p) w)),
                     start = clockOn (dayOf p w 5) (weekendStartTime p),
                     endt = clockOn (dayOf p w 6) (weekendEndTime p)\<rparr>]
             else [])" for w
    by (simp add: weekBody_def weekend weekdayLoop_closed [of p w 0 "[]"] bodyA day fin
          inRangeWeekdays_def weekendEvents_def)
  have weekB: "weekBody_app p w [] =
          concat (map (policyB_weekday p w) (inRangeWeekdays p w))
          @ (if dayOf p w 5 \<le> endOf p
             then [\<lparr>title = (if isLaneWeekend p w then ''Weekend Lane''
                              else ''Weekend '' @ tpl (personForWeek p w)),
                     start = clockOn (dayOf p w 5) (weekendStartTime p),
                     endt = clockOn (dayOf p w 6) (weekendEndTime p)\<rparr>]
             else [])" for w
    by (simp add: weekBody_app_def weekend weekdayLoop_app_closed [of p w 0 "[]"] bodyB day fin
          inRangeWeekdays_def weekendEvents_def)
  have after: "endOf p < dayOf p w 5" if "weeksTotal p \<le> w"
  proof -
    have "totalDays p \<le> 7 * weeksTotal p" using weeksTotal_ceiling [of p] by simp
    with that have "totalDays p * 86400000 < (7 * w + 5) * 86400000" by simp
    then show ?thesis by (simp add: endOf_def dayOf_def)
  qed
  show ?thesis
    using after
    by (simp add: generateSchedule_def generateSchedule_app_def weekLoop_closed [of p 0 "[]"]
          weekLoop_app_closed [of p 0 "[]"] weekA weekB)
qed

theorem weekend_event_per_week_witness:
  "3 \<le> length (rotationOrder (demo\<lparr>years := 9 / 256\<rparr>))
   \<and> [e\<leftarrow>projr (generateSchedule (demo\<lparr>years := 9 / 256\<rparr>)). take 8 (title e) = ''Weekend ''] =
     [\<lparr>title = ''Weekend Lane'', start = 1704520800000, endt = 1704671940000\<rparr>,
        \<lparr>title = ''Weekend B'', start = 1705125600000, endt = 1705276740000\<rparr>]
   \<and> [e\<leftarrow>projr (generateSchedule_app (demo\<lparr>years := 9 / 256\<rparr>)). take 8 (title e) = ''Weekend ''] =
     [\<lparr>title = ''Weekend Lane'', start = 1704520800000, endt = 1704671940000\<rparr>,
        \<lparr>title = ''Weekend B'', start = 1705125600000, endt = 1705276740000\<rparr>]
   \<and> [e\<leftarrow>projr (generateSchedule_app (demo\<lparr>years := 3 / 128\<rparr>)). take 8 (title e) = ''Weekend ''] =
     [\<lparr>title = ''Weekend Lane'', start = 1704520800000, endt = 1704671940000\<rparr>]
   \<and> weeksTotal (demo\<lparr>years := 3 / 128\<rparr>) = 2
   \<and> endOf (demo\<lparr>years := 3 / 128\<rparr>) < dayOf (demo\<lparr>years := 3 / 128\<rparr>) 1 5
   \<and> endOf (demo\<lparr>years := 3 / 128\<rparr>) < dayOf (demo\<lparr>years := 3 / 128\<rparr>) 2 5"
proof -
  have h: "3 \<le> length (rotationOrder (demo\<lparr>years := 9 / 256\<rparr>))" by code_simp
  have t: "totalDays (demo\<lparr>years := 9 / 256\<rparr>) = 12"
    "weeksTotal (demo\<lparr>years := 9 / 256\<rparr>) = 2"
    "totalDays (demo\<lparr>years := 3 / 128\<rparr>) = 8"
    by code_simp+
  have w: "weeksTotal (demo\<lparr>years := 3 / 128\<rparr>) = 2" by code_simp
  have a: "[e\<leftarrow>projr (generateSchedule (demo\<lparr>years := 9 / 256\<rparr>)). take 8 (title e) = ''Weekend ''] =
     [\<lparr>title = ''Weekend Lane'', start = 1704520800000, endt = 1704671940000\<rparr>,
        \<lparr>title = ''Weekend B'', start = 1705125600000, endt = 1705276740000\<rparr>]"
    by (simp only: mp [OF conjunct1 [OF weekend_event_per_week] h] inRangeWeekdays_def endOf_def t)
       code_simp
  have a': "[e\<leftarrow>projr (generateSchedule (demo\<lparr>years := 9 / 256\<rparr>)). take 8 (title e) = ''Weekend ''] =
     [\<lparr>title = ''Weekend Lane'', start = 1704520800000, endt = 1704671940000\<rparr>,
        \<lparr>title = ''Weekend B'', start = 1705125600000, endt = 1705276740000\<rparr>]"
    by code_simp
  have b: "[e\<leftarrow>projr (generateSchedule_app (demo\<lparr>years := 9 / 256\<rparr>)). take 8 (title e) = ''Weekend ''] =
     [\<lparr>title = ''Weekend Lane'', start = 1704520800000, endt = 1704671940000\<rparr>,
        \<lparr>title = ''Weekend B'', start = 1705125600000, endt = 1705276740000\<rparr>]"
    by (simp only: conjunct1 [OF conjunct2 [OF weekend_event_per_week]] inRangeWeekdays_def
          endOf_def t)
       code_simp
  have b': "[e\<leftarrow>projr (generateSchedule_app (demo\<lparr>years := 9 / 256\<rparr>)). take 8 (title e) = ''Weekend ''] =
     [\<lparr>title = ''Weekend Lane'', start = 1704520800000, endt = 1704671940000\<rparr>,
        \<lparr>title = ''Weekend B'', start = 1705125600000, endt = 1705276740000\<rparr>]"
    by code_simp
  have c: "[e\<leftarrow>projr (generateSchedule_app (demo\<lparr>years := 3 / 128\<rparr>)). take 8 (title e) = ''Weekend ''] =
     [\<lparr>title = ''Weekend Lane'', start = 1704520800000, endt = 1704671940000\<rparr>]"
    by (simp only: conjunct1 [OF conjunct2 [OF weekend_event_per_week]] inRangeWeekdays_def
          endOf_def t w)
       code_simp
  have c': "[e\<leftarrow>projr (generateSchedule_app (demo\<lparr>years := 3 / 128\<rparr>)). take 8 (title e) = ''Weekend ''] =
     [\<lparr>title = ''Weekend Lane'', start = 1704520800000, endt = 1704671940000\<rparr>]"
    by code_simp
  have d: "endOf (demo\<lparr>years := 3 / 128\<rparr>) < dayOf (demo\<lparr>years := 3 / 128\<rparr>) 1 5"
    by (simp only: endOf_def t) code_simp
  have "weeksTotal (demo\<lparr>years := 3 / 128\<rparr>) \<le> 2" using w by simp
  then have e: "endOf (demo\<lparr>years := 3 / 128\<rparr>) < dayOf (demo\<lparr>years := 3 / 128\<rparr>) 2 5"
    by (rule mp [OF conjunct2 [OF conjunct2 [OF weekend_event_per_week]]])
  from h a b c a' b' c' w d e show ?thesis by (intro conjI)
qed

text \<open>
  C5. For every valid parameter set the returned schedule is sorted non-decreasing by start
  time, and events with equal start times keep the order in which they were generated
  (the sort is stable); it holds the generated events and no others.
\<close>

theorem schedule_sorted_stable:
  "(3 \<le> length (rotationOrder p) \<longrightarrow>
      (\<exists>evs. generateSchedule p = Inr evs \<and> sorted (map start evs)
            \<and> mset evs = mset (weekLoop p 0 [])
            \<and> (\<forall>t. [e\<leftarrow>evs. start e = t] = [e\<leftarrow>weekLoop p 0 []. start e = t])))
   \<and> (\<exists>evs. generateSchedule_app p = Inr evs \<and> sorted (map start evs)
            \<and> mset evs = mset (weekLoop_app p 0 [])
            \<and> (\<forall>t. [e\<leftarrow>evs. start e = t] = [e\<leftarrow>weekLoop_app p 0 []. start e = t]))"
proof -
  have s: "sorted (map start (sortByStart xs)) \<and> mset (sortByStart xs) = mset xs
           \<and> (\<forall>t. [e\<leftarrow>sortByStart xs. start e = t] = [e\<leftarrow>xs. start e = t])" for xs
    by (simp add: sortByStart_def sort_key_stable)
  have a: "generateSchedule p = Inr (sortByStart (weekLoop p 0 []))"
    if "3 \<le> length (rotationOrder p)"
    using that by (simp add: generateSchedule_def)
  have b: "generateSchedule_app p = Inr (sortByStart (weekLoop_app p 0 []))"
    by (simp add: generateSchedule_app_def)
  show ?thesis using a b s by simp
qed

theorem schedule_sorted_stable_witness:
  "3 \<le> length (rotationOrder (demo\<lparr>years := 1 / 256, hospStartTime := \<lparr>hm_h = 9, hm_m = 0\<rparr>\<rparr>))
   \<and> (\<exists>evs. generateSchedule (demo\<lparr>years := 1 / 256, hospStartTime := \<lparr>hm_h = 9, hm_m = 0\<rparr>\<rparr>) = Inr evs \<and> sorted (map start evs)
         \<and> mset evs = mset (weekLoop (demo\<lparr>years := 1 / 256, hospStartTime := \<lparr>hm_h = 9, hm_m = 0\<rparr>\<rparr>) 0 []))
   \<and> (\<exists>evs. generateSchedule_app (demo\<lparr>years := 1 / 256, hospStartTime := \<lparr>hm_h = 9, hm_m = 0\<rparr>\<rparr>) = Inr evs \<and> sorted (map start evs)
         \<and> mset evs = mset (weekLoop_app (demo\<lparr>years := 1 / 256, hospStartTime := \<lparr>hm_h = 9, hm_m = 0\<rparr>\<rparr>) 0 []))
   \<and> weekLoop (demo\<lparr>years := 1 / 256, hospStartTime := \<lparr>hm_h = 9, hm_m = 0\<rparr>\<rparr>) 0 [] =
     [\<lparr>title = ''HOSPITAL A'', start = 1704099600000, endt = 1704128400000\<rparr>,
        \<lparr>title = ''ODC Lane'', start = 1704096000000, endt = 1704110400000\<rparr>,
        \<lparr>title = ''OFF B'', start = 1704096000000, endt = 1704128400000\<rparr>,
        \<lparr>title = ''OFF C'', start = 1704096000000, endt = 1704128400000\<rparr>,
        \<lparr>title = ''HOSPITAL A'', start = 1704186000000, endt = 1704214800000\<rparr>,
        \<lparr>title = ''ODC Lane'', start = 1704182400000, endt = 1704196800000\<rparr>,
        \<lparr>title = ''OFF B'', start = 1704182400000, endt = 1704214800000\<rparr>,
        \<lparr>title = ''OFF C'', start = 1704182400000, endt = 1704214800000\<rparr>]
   \<and> generateSchedule (demo\<lparr>years := 1 / 256, hospStartTime := \<lparr>hm_h = 9, hm_m = 0\<rparr>\<rparr>) =
     Inr [\<lparr>title = ''ODC Lane'', start = 1704096000000, endt = 1704110400000\<rparr>,
        \<lparr>title = ''OFF B'', start = 1704096000000, endt = 1704128400000\<rparr>,
        \<lparr>title = ''OFF C'', start = 1704096000000, endt = 1704128400000\<rparr>,
        \<lparr>title = ''HOSPITAL A'', start = 1704099600000, endt = 1704128400000\<rparr>,
        \<lparr>title = ''ODC Lane'', start = 1704182400000, endt = 1704196800000\<rparr>,
        \<lparr>title = ''OFF B'', start = 1704182400000, endt = 1704214800000\<rparr>,
        \<lparr>title = ''OFF C'', start = 1704182400000, endt = 1704214800000\<rparr>,
        \<lparr>title = ''HOSPITAL A'', start = 1704186000000, endt = 1704214800000\<rparr>]
   \<and> weekLoop_app (demo\<lparr>years := 1 / 256, hospStartTime := \<lparr>hm_h = 9, hm_m = 0\<rparr>\<rparr>) 0 [] =
     [\<lparr>title = ''HOSPITAL A'', start = 1704099600000, endt = 1704128400000\<rparr>,
        \<lparr>title = ''ODC A'', start = 1704096000000, endt = 1704128400000\<rparr>,
        \<lparr>title = ''ODC Lane'', start = 1704096000000, endt = 1704110400000\<rparr>,
        \<lparr>title = ''HOSPITAL A'', start = 1704186000000, endt = 1704214800000\<rparr>,
        \<lparr>title = ''ODC A'', start = 1704182400000, endt = 1704214800000\<rparr>,
        \<lparr>title = ''ODC Lane'', start = 1704182400000, endt = 1704196800000\<rparr>]
   \<and> generateSchedule_app (demo\<lparr>years := 1 / 256, hospStartTime := \<lparr>hm_h = 9, hm_m = 0\<rparr>\<rparr>) =
     Inr [\<lparr>title = ''ODC A'', start = 1704096000000, endt = 1704128400000\<rparr>,
        \<lparr>title = ''ODC Lane'', start = 1704096000000, endt = 1704110400000\<rparr>,
        \<lparr>title = ''HOSPITAL A'', start = 1704099600000, endt = 1704128400000\<rparr>,
        \<lparr>title = ''ODC A'', start = 1704182400000, endt = 1704214800000\<rparr>,
        \<lparr>title = ''ODC Lane'', start = 1704182400000, endt = 1704196800000\<rparr>,
        \<lparr>title = ''HOSPITAL A'', start = 1704186000000, endt = 1704214800000\<rparr>]"
proof -
  have h: "3 \<le> length (rotationOrder (demo\<lparr>years := 1 / 256, hospStartTime := \<lparr>hm_h = 9, hm_m = 0\<rparr>\<rparr>))" by code_simp
  from schedule_sorted_stable [of "demo\<lparr>years := 1 / 256, hospStartTime := \<lparr>hm_h = 9, hm_m = 0\<rparr>\<rparr>"] h
  have a: "\<exists>evs. generateSchedule (demo\<lparr>years := 1 / 256, hospStartTime := \<lparr>hm_h = 9, hm_m = 0\<rparr>\<rparr>) = Inr evs \<and> sorted (map start evs)
         \<and> mset evs = mset (weekLoop (demo\<lparr>years := 1 / 256, hospStartTime := \<lparr>hm_h = 9, hm_m = 0\<rparr>\<rparr>) 0 [])"
    and b: "\<exists>evs. generateSchedule_app (demo\<lparr>years := 1 / 256, hospStartTime := \<lparr>hm_h = 9, hm_m = 0\<rparr>\<rparr>) = Inr evs \<and> sorted (map start evs)
         \<and> mset evs = mset (weekLoop_app (demo\<lparr>years := 1 / 256, hospStartTime := \<lparr>hm_h = 9, hm_m = 0\<rparr>\<rparr>) 0 [])"
    by blast+
  have c: "weekLoop (demo\<lparr>years := 1 / 256, hospStartTime := \<lparr>hm_h = 9, hm_m = 0\<rparr>\<rparr>) 0 [] =
     [\<lparr>title = ''HOSPITAL A'', start = 1704099600000, endt = 1704128400000\<rparr>,
        \<lparr>title = ''ODC Lane'', start = 1704096000000, endt = 1704110400000\<rparr>,
        \<lparr>title = ''OFF B'', start = 1704096000000, endt = 1704128400000\<rparr>,
        \<lparr>title = ''OFF C'', start = 1704096000000, endt = 1704128400000\<rparr>,
        \<lparr>title = ''HOSPITAL A'', start = 1704186000000, endt = 1704214800000\<rparr>,
        \<lparr>title = ''ODC Lane'', start = 1704182400000, endt = 1704196800000\<rparr>,
        \<lparr>title = ''OFF B'', start = 1704182400000, endt = 1704214800000\<rparr>,
        \<lparr>title = ''OFF C'', start = 1704182400000, endt = 1704214800000\<rparr>]"
    by code_simp
  have d: "generateSchedule (demo\<lparr>years := 1 / 256, hospStartTime := \<lparr>hm_h = 9, hm_m = 0\<rparr>\<rparr>) =
     Inr [\<lparr>title = ''ODC Lane'', start = 1704096000000, endt = 1704110400000\<rparr>,
        \<lparr>title = ''OFF B'', start = 1704096000000, endt = 1704128400000\<rparr>,
        \<lparr>title = ''OFF C'', start = 1704096000000, endt = 1704128400000\<rparr>,
        \<lparr>title = ''HOSPITAL A'', start = 1704099600000, endt = 1704128400000\<rparr>,
        \<lparr>title = ''ODC Lane'', start = 1704182400000, endt = 1704196800000\<rparr>,
        \<lparr>title = ''OFF B'', start = 1704182400000, endt = 1704214800000\<rparr>,
        \<lparr>title = ''OFF C'', start = 1704182400000, endt = 1704214800000\<rparr>,
        \<lparr>title = ''HOSPITAL A'', start = 1704186000000, endt = 1704214800000\<rparr>]"
    by code_simp
  have e: "weekLoop_app (demo\<lparr>years := 1 / 256, hospStartTime := \<lparr>hm_h = 9, hm_m = 0\<rparr>\<rparr>) 0 [] =
     [\<lparr>title = ''HOSPITAL A'', start = 1704099600000, endt = 1704128400000\<rparr>,
        \<lparr>title = ''ODC A'', start = 1704096000000, endt = 1704128400000\<rparr>,
        \<lparr>title = ''ODC Lane'', start = 1704096000000, endt = 1704110400000\<rparr>,
        \<lparr>title = ''HOSPITAL A'', start = 1704186000000, endt = 1704214800000\<rparr>,
        \<lparr>title = ''ODC A'', start = 1704182400000, endt = 1704214800000\<rparr>,
        \<lparr>title = ''ODC Lane'', start = 1704182400000, endt = 1704196800000\<rparr>]"
    by code_simp
  have f: "generateSchedule_app (demo\<lparr>years := 1 / 256, hospStartTime := \<lparr>hm_h = 9, hm_m = 0\<rparr>\<rparr>) =
     Inr [\<lparr>title = ''ODC A'', start = 1704096000000, endt = 1704128400000\<rparr>,
        \<lparr>title = ''ODC Lane'', start = 1704096000000, endt = 1704110400000\<rparr>,
        \<lparr>title = ''HOSPITAL A'', start = 1704099600000, endt = 1704128400000\<rparr>,
        \<lparr>title = ''ODC A'', start = 1704182400000, endt = 1704214800000\<rparr>,
        \<lparr>title = ''ODC Lane'', start = 1704182400000, endt = 1704196800000\<rparr>,
        \<lparr>title = ''HOSPITAL A'', start = 1704186000000, endt = 1704214800000\<rparr>]"
    by code_simp
  from h a b c d e f show ?thesis by (intro conjI)
qed

text \<open>
  C6. Under Policy A, on a lane week each in-range weekday yields the "HOSPITAL" event, the
  "ODC Lane" event in the lane window and the "OFF" events that the flags ask for, and no
  "ODC {person}" event; with \<open>showOff\<close> and \<open>doubleOffOnLaneWeeks\<close> both set the "OFF" events
  are exactly two, one for the displaced on-call person and one for the normally-off
  person, both in the on-call window. The schedule that the generator of part\_000 returns
  is the sorted list of exactly these events on the lane weeks, of the ordinary events on the
  other weeks, and of the weekend events.
\<close>

theorem policyA_lane_week_double_off:
  assumes "3 \<le> length (rotationOrder p)"
  shows "generateSchedule p =
     Inr (sortByStart (concat (map (\<lambda>w.
       concat (map (\<lambda>d.
         if isLaneWeek p w then
           [dayEvent (''HOSPITAL '' @ tpl (hospitalForWeek (rotationOrder p) w))
              (dayOf p w d) (hospStartTime p) (hospEndTime p),
            dayEvent ''ODC Lane'' (dayOf p w d) (laneStartTime p) (laneEndTime p)]
           @ (if showOff p
              then [dayEvent (''OFF '' @ tpl (odcForWeek (rotationOrder p) w))
                      (dayOf p w d) (odcStartTime p) (odcEndTime p)]
              else [])
           @ (if showOff p \<and> doubleOffOnLaneWeeks p
              then [dayEvent (''OFF '' @ tpl (offForWeek (rotationOrder p) w))
                      (dayOf p w d) (odcStartTime p) (odcEndTime p)]
              else [])
         else
           [dayEvent (''HOSPITAL '' @ tpl (hospitalForWeek (rotationOrder p) w))
              (dayOf p w d) (hospStartTime p) (hospEndTime p),
            dayEvent (''ODC '' @ tpl (odcForWeek (rotationOrder p) w))
              (dayOf p w d) (odcStartTime p) (odcEndTime p)]
           @ (if showOff p
              then [dayEvent (''OFF '' @ tpl (offForWeek (rotationOrder p) w))
                      (dayOf p w d) (odcStartTime p) (odcEndTime p)]
              else []))
         [d\<leftarrow>[0..4]. dayOf p w d \<le> endOf p])
       @ weekendEvents p (hospitalForWeek (rotationOrder p) w) w)
       [0..weeksTotal p - 1])))
   \<and> (showOff p \<and> doubleOffOnLaneWeeks p \<longrightarrow>
      generateSchedule p =
        Inr (sortByStart (concat (map (\<lambda>w.
          concat (map (\<lambda>d.
            if isLaneWeek p w then
              [dayEvent (''HOSPITAL '' @ tpl (hospitalForWeek (rotationOrder p) w))
                 (dayOf p w d) (hospStartTime p) (hospEndTime p),
               dayEvent ''ODC Lane'' (dayOf p w d) (laneStartTime p) (laneEndTime p),
               dayEvent (''OFF '' @ tpl (odcForWeek (rotationOrder p) w))
                 (dayOf p w d) (odcStartTime p) (odcEndTime p),
               dayEvent (''OFF '' @ tpl (offForWeek (rotationOrder p) w))
                 (dayOf p w d) (odcStartTime p) (odcEndTime p)]
            else
              [dayEvent (''HOSPITAL '' @ tpl (hospitalForWeek (rotationOrder p) w))
                 (dayOf p w d) (hospStartTime p) (hospEndTime p),
               dayEvent (''ODC '' @ tpl (odcForWeek (rotationOrder p) w))
                 (dayOf p w d) (odcStartTime p) (odcEndTime p),
               dayEvent (''OFF '' @ tpl (offForWeek (rotationOrder p) w))
                 (dayOf p w d) (odcStartTime p) (odcEndTime p)])
            [d\<leftarrow>[0..4]. dayOf p w d \<le> endOf p])
          @ weekendEvents p (hospitalForWeek (rotationOrder p) w) w)
          [0..weeksTotal p - 1]))))"
proof -
  have day: "addDays (weekStart p w) d = dayOf p w d" for w d
    by (simp add: addDays_def weekStart_def dayOf_def msPerDay_def algebra_simps)
  have fin: "endDate p = endOf p"
    by (simp add: endDate_def addDays_def endOf_def msPerDay_def)
  have clock: "setHours d (hm_h t) (hm_m t) = clockOn d t" for d t
  proof -
    have "d div 86400000 * 86400000 = d - d mod 86400000"
      by (simp add: algebra_simps minus_mod_eq_mult_div)
    then show ?thesis by (simp add: setHours_def clockOn_def msPerDay_def)
  qed
  have win: "windowEvent t d t1 d t2 = dayEvent t d t1 t2" for t d t1 t2
    by (simp add: windowEvent_def buildEvent_def dayEvent_def clock)
  have weekend: "weekendBlock p w person xs = xs @ weekendEvents p person w" for w person xs
    by (simp add: weekendBlock_def Let_def push_def weekendEvents_def windowEvent_def
          buildEvent_def clock day fin)
  have body: "weekdayBody p w date [] =
        (if isLaneWeek p w then
           [dayEvent (''HOSPITAL '' @ tpl (hospitalForWeek (rotationOrder p) w))
              date (hospStartTime p) (hospEndTime p),
            dayEvent ''ODC Lane'' date (laneStartTime p) (laneEndTime p)]
           @ (if showOff p
              then [dayEvent (''OFF '' @ tpl (odcForWeek (rotationOrder p) w))
                      date (odcStartTime p) (odcEndTime p)]
              else [])
           @ (if showOff p \<and> doubleOffOnLaneWeeks p
              then [dayEvent (''OFF '' @ tpl (offForWeek (rotationOrder p) w))
                      date (odcStartTime p) (odcEndTime p)]
              else [])
         else
           [dayEvent (''HOSPITAL '' @ tpl (hospitalForWeek (rotationOrder p) w))
              date (hospStartTime p) (hospEndTime p),
            dayEvent (''ODC '' @ tpl (odcForWeek (rotationOrder p) w))
              date (odcStartTime p) (odcEndTime p)]
           @ (if showOff p
              then [dayEvent (''OFF '' @ tpl (offForWeek (rotationOrder p) w))
                      date (odcStartTime p) (odcEndTime p)]
              else []))" for w date
    by (simp add: weekdayBody_def Let_def push_def win)
  have week: "weekBody p w [] =
       concat (map (\<lambda>d.
         if isLaneWeek p w then
           [dayEvent (''HOSPITAL '' @ tpl (hospitalForWeek (rotationOrder p) w))
              (dayOf p w d) (hospStartTime p) (hospEndTime p),
            dayEvent ''ODC Lane'' (dayOf p w d) (laneStartTime p) (laneEndTime p)]
           @ (if showOff p
              then [dayEvent (''OFF '' @ tpl (odcForWeek (rotationOrder p) w))
                      (dayOf p w d) (odcStartTime p) (odcEndTime p)]
              else [])
           @ (if showOff p \<and> doubleOffOnLaneWeeks p
              then [dayEvent (''OFF '' @ tpl (offForWeek (rotationOrder p) w))
                      (dayOf p w d) (odcStartTime p) (odcEndTime p)]
              else [])
         else
           [dayEvent (''HOSPITAL '' @ tpl (hospitalForWeek (rotationOrder p) w))
              (dayOf p w d) (hospStartTime p) (hospEndTime p),
            dayEvent (''ODC '' @ tpl (odcForWeek (rotationOrder p) w))
              (dayOf p w d) (odcStartTime p) (odcEndTime p)]
           @ (if showOff p
              then [dayEvent (''OFF '' @ tpl (offForWeek (rotationOrder p) w))
                      (dayOf p w d) (odcStartTime p) (odcEndTime p)]
              else []))
         [d\<leftarrow>[0..4]. dayOf p w d \<le> endOf p])
       @ weekendEvents p (hospitalForWeek (rotationOrder p) w) w" for w
    by (simp only: weekBody_def weekend weekdayLoop_closed [of p w 0 "[]"] body day fin
          append_Nil)
  have first: "generateSchedule p =
     Inr (sortByStart (concat (map (\<lambda>w.
       concat (map (\<lambda>d.
         if isLaneWeek p w then
           [dayEvent (''HOSPITAL '' @ tpl (hospitalForWeek (rotationOrder p) w))
              (dayOf p w d) (hospStartTime p) (hospEndTime p),
            dayEvent ''ODC Lane'' (dayOf p w d) (laneStartTime p) (laneEndTime p)]
           @ (if showOff p
              then [dayEvent (''OFF '' @ tpl (odcForWeek (rotationOrder p) w))
                      (dayOf p w d) (odcStartTime p) (odcEndTime p)]
              else [])
           @ (if showOff p \<and> doubleOffOnLaneWeeks p
              then [dayEvent (''OFF '' @ tpl (offForWeek (rotationOrder p) w))
                      (dayOf p w d) (odcStartTime p) (odcEndTime p)]
              else [])
         else
           [dayEvent (''HOSPITAL '' @ tpl (hospitalForWeek (rotationOrder p) w))
              (dayOf p w d) (hospStartTime p) (hospEndTime p),
            dayEvent (''ODC '' @ tpl (odcForWeek (rotationOrder p) w))
              (dayOf p w d) (odcStartTime p) (odcEndTime p)]
           @ (if showOff p
              then [dayEvent (''OFF '' @ tpl (offForWeek (rotationOrder p) w))
                      (dayOf p w d) (odcStartTime p) (odcEndTime p)]
              else []))
         [d\<leftarrow>[0..4]. dayOf p w d \<le> endOf p])
       @ weekendEvents p (hospitalForWeek (rotationOrder p) w) w)
       [0..weeksTotal p - 1])))"
    using assms
    by (simp add: generateSchedule_def weekLoop_closed [of p 0 "[]"] week del: append_assoc)
  show ?thesis
  proof (intro conjI impI)
    show "generateSchedule p =
     Inr (sortByStart (concat (map (\<lambda>w.
       concat (map (\<lambda>d.
         if isLaneWeek p w then
           [dayEvent (''HOSPITAL '' @ tpl (hospitalForWeek (rotationOrder p) w))
              (dayOf p w d) (hospStartTime p) (hospEndTime p),
            dayEvent ''ODC Lane'' (dayOf p w d) (laneStartTime p) (laneEndTime p)]
           @ (if showOff p
              then [dayEvent (''OFF '' @ tpl (odcForWeek (rotationOrder p) w))
                      (dayOf p w d) (odcStartTime p) (odcEndTime p)]
              else [])
           @ (if showOff p \<and> doubleOffOnLaneWeeks p
              then [dayEvent (''OFF '' @ tpl (offForWeek (rotationOrder p) w))
                      (dayOf p w d) (odcStartTime p) (odcEndTime p)]
              else [])
         else
           [dayEvent (''HOSPITAL '' @ tpl (hospitalForWeek (rotationOrder p) w))
              (dayOf p w d) (hospStartTime p) (hospEndTime p),
            dayEvent (''ODC '' @ tpl (odcForWeek (rotationOrder p) w))
              (dayOf p w d) (odcStartTime p) (odcEndTime p)]
           @ (if showOff p
              then [dayEvent (''OFF '' @ tpl (offForWeek (rotationOrder p) w))
                      (dayOf p w d) (odcStartTime p) (odcEndTime p)]
              else []))
         [d\<leftarrow>[0..4]. dayOf p w d \<le> endOf p])
       @ weekendEvents p (hospitalForWeek (rotationOrder p) w) w)
       [0..weeksTotal p - 1])))"
      by (rule first)
  next
    assume f: "showOff p \<and> doubleOffOnLaneWeeks p"
    show "generateSchedule p =
        Inr (sortByStart (concat (map (\<lambda>w.
          concat (map (\<lambda>d.
            if isLaneWeek p w then
              [dayEvent (''HOSPITAL '' @ tpl (hospitalForWeek (rotationOrder p) w))
                 (dayOf p w d) (hospStartTime p) (hospEndTime p),
               dayEvent ''ODC Lane'' (dayOf p w d) (laneStartTime p) (laneEndTime p),
               dayEvent (''OFF '' @ tpl (odcForWeek (rotationOrder p) w))
                 (dayOf p w d) (odcStartTime p) (odcEndTime p),
               dayEvent (''OFF '' @ tpl (offForWeek (rotationOrder p) w))
                 (dayOf p w d) (odcStartTime p) (odcEndTime p)]
            else
              [dayEvent (''HOSPITAL '' @ tpl (hospitalForWeek (rotationOrder p) w))
                 (dayOf p w d) (hospStartTime p) (hospEndTime p),
               dayEvent (''ODC '' @ tpl (odcForWeek (rotationOrder p) w))
                 (dayOf p w d) (odcStartTime p) (odcEndTime p),
               dayEvent (''OFF '' @ tpl (offForWeek (rotationOrder p) w))
                 (dayOf p w d) (odcStartTime p) (odcEndTime p)])
            [d\<leftarrow>[0..4]. dayOf p w d \<le> endOf p])
          @ weekendEvents p (hospitalForWeek (rotationOrder p) w) w)
          [0..weeksTotal p - 1])))"
      using first f by (simp cong: if_cong)
  qed
qed

theorem policyA_lane_week_double_off_witness:
  "3 \<le> length (rotationOrder (demo\<lparr>years := 3 / 128, lanePatternWeeks := 1\<rparr>))
   \<and> showOff (demo\<lparr>years := 3 / 128, lanePatternWeeks := 1\<rparr>) \<and> doubleOffOnLaneWeeks (demo\<lparr>years := 3 / 128, lanePatternWeeks := 1\<rparr>)
   \<and> isLaneWeek (demo\<lparr>years := 3 / 128, lanePatternWeeks := 1\<rparr>) 0 \<and> isLaneWeek (demo\<lparr>years := 3 / 128, lanePatternWeeks := 1\<rparr>) 1
   \<and> generateSchedule (demo\<lparr>years := 3 / 128, lanePatternWeeks := 1\<rparr>) =
     Inr [\<lparr>title = ''HOSPITAL A'', start = 1704092400000, endt = 1704128400000\<rparr>,
        \<lparr>title = ''ODC Lane'', start = 1704096000000, endt = 1704110400000\<rparr>,
        \<lparr>title = ''OFF B'', start = 1704096000000, endt = 1704128400000\<rparr>,
        \<lparr>title = ''OFF C'', start = 1704096000000, endt = 1704128400000\<rparr>,
        \<lparr>title = ''HOSPITAL A'', start = 1704178800000, endt = 1704214800000\<rparr>,
        \<lparr>title = ''ODC Lane'', start = 1704182400000, endt = 1704196800000\<rparr>,
        \<lparr>title = ''OFF B'', start = 1704182400000, endt = 1704214800000\<rparr>,
        \<lparr>title = ''OFF C'', start = 1704182400000, endt = 1704214800000\<rparr>,
        \<lparr>title = ''HOSPITAL A'', start = 1704265200000, endt = 1704301200000\<rparr>,
        \<lparr>title = ''ODC Lane'', start = 1704268800000, endt = 1704283200000\<rparr>,
        \<lparr>title = ''OFF B'', start = 1704268800000, endt = 1704301200000\<rparr>,
        \<lparr>title = ''OFF C'', start = 1704268800000, endt = 1704301200000\<rparr>,
        \<lparr>title = ''HOSPITAL A'', start = 1704351600000, endt = 1704387600000\<rparr>,
        \<lparr>title = ''ODC Lane'', start = 1704355200000, endt = 1704369600000\<rparr>,
        \<lparr>title = ''OFF B'', start = 1704355200000, endt = 1704387600000\<rparr>,
        \<lparr>title = ''OFF C'', start = 1704355200000, endt = 1704387600000\<rparr>,
        \<lparr>title = ''HOSPITAL A'', start = 1704438000000, endt = 1704474000000\<rparr>,
        \<lparr>title = ''ODC Lane'', start = 1704441600000, endt = 1704456000000\<rparr>,
        \<lparr>title = ''OFF B'', start = 1704441600000, endt = 1704474000000\<rparr>,
        \<lparr>title = ''OFF C'', start = 1704441600000, endt = 1704474000000\<rparr>,
        \<lparr>title = ''Weekend Lane'', start = 1704520800000, endt = 1704671940000\<rparr>,
        \<lparr>title = ''HOSPITAL B'', start = 1704697200000, endt = 1704733200000\<rparr>,
        \<lparr>title = ''ODC Lane'', start = 1704700800000, endt = 1704715200000\<rparr>,
        \<lparr>title = ''OFF C'', start = 1704700800000, endt = 1704733200000\<rparr>,
        \<lparr>title = ''OFF A'', start = 1704700800000, endt = 1704733200000\<rparr>,
        \<lparr>title = ''HOSPITAL B'', start = 1704783600000, endt = 1704819600000\<rparr>,
        \<lparr>title = ''ODC Lane'', start = 1704787200000, endt = 1704801600000\<rparr>,
        \<lparr>title = ''OFF C'', start = 1704787200000, endt = 1704819600000\<rparr>,
        \<lparr>title = ''OFF A'', start = 1704787200000, endt = 1704819600000\<rparr>]"
proof -
  have h: "3 \<le> length (rotationOrder (demo\<lparr>years := 3 / 128, lanePatternWeeks := 1\<rparr>))" by code_simp
  have f: "showOff (demo\<lparr>years := 3 / 128, lanePatternWeeks := 1\<rparr>) \<and> doubleOffOnLaneWeeks (demo\<lparr>years := 3 / 128, lanePatternWeeks := 1\<rparr>)" by code_simp
  have l: "isLaneWeek (demo\<lparr>years := 3 / 128, lanePatternWeeks := 1\<rparr>) 0" "isLaneWeek (demo\<lparr>years := 3 / 128, lanePatternWeeks := 1\<rparr>) 1" by code_simp+
  have t: "totalDays (demo\<lparr>years := 3 / 128, lanePatternWeeks := 1\<rparr>) = 8"
    "weeksTotal (demo\<lparr>years := 3 / 128, lanePatternWeeks := 1\<rparr>) = 2"
    by code_simp+
  have g: "generateSchedule (demo\<lparr>years := 3 / 128, lanePatternWeeks := 1\<rparr>) =
     Inr [\<lparr>title = ''HOSPITAL A'', start = 1704092400000, endt = 1704128400000\<rparr>,
        \<lparr>title = ''ODC Lane'', start = 1704096000000, endt = 1704110400000\<rparr>,
        \<lparr>title = ''OFF B'', start = 1704096000000, endt = 1704128400000\<rparr>,
        \<lparr>title = ''OFF C'', start = 1704096000000, endt = 1704128400000\<rparr>,
        \<lparr>title = ''HOSPITAL A'', start = 1704178800000, endt = 1704214800000\<rparr>,
        \<lparr>title = ''ODC Lane'', start = 1704182400000, endt = 1704196800000\<rparr>,
        \<lparr>title = ''OFF B'', start = 1704182400000, endt = 1704214800000\<rparr>,
        \<lparr>title = ''OFF C'', start = 1704182400000, endt = 1704214800000\<rparr>,
        \<lparr>title = ''HOSPITAL A'', start = 1704265200000, endt = 1704301200000\<rparr>,
        \<lparr>title = ''ODC Lane'', start = 1704268800000, endt = 1704283200000\<rparr>,
        \<lparr>title = ''OFF B'', start = 1704268800000, endt = 1704301200000\<rparr>,
        \<lparr>title = ''OFF C'', start = 1704268800000, endt = 1704301200000\<rparr>,
        \<lparr>title = ''HOSPITAL A'', start = 1704351600000, endt = 1704387600000\<rparr>,
        \<lparr>title = ''ODC Lane'', start = 1704355200000, endt = 1704369600000\<rparr>,
        \<lparr>title = ''OFF B'', start = 1704355200000, endt = 1704387600000\<rparr>,
        \<lparr>title = ''OFF C'', start = 1704355200000, endt = 1704387600000\<rparr>,
        \<lparr>title = ''HOSPITAL A'', start = 1704438000000, endt = 1704474000000\<rparr>,
        \<lparr>title = ''ODC Lane'', start = 1704441600000, endt = 1704456000000\<rparr>,
        \<lparr>title = ''OFF B'', start = 1704441600000, endt = 1704474000000\<rparr>,
        \<lparr>title = ''OFF C'', start = 1704441600000, endt = 1704474000000\<rparr>,
        \<lparr>title = ''Weekend Lane'', start = 1704520800000, endt = 1704671940000\<rparr>,
        \<lparr>title = ''HOSPITAL B'', start = 1704697200000, endt = 1704733200000\<rparr>,
        \<lparr>title = ''ODC Lane'', start = 1704700800000, endt = 1704715200000\<rparr>,
        \<lparr>title = ''OFF C'', start = 1704700800000, endt = 1704733200000\<rparr>,
        \<lparr>title = ''OFF A'', start = 1704700800000, endt = 1704733200000\<rparr>,
        \<lparr>title = ''HOSPITAL B'', start = 1704783600000, endt = 1704819600000\<rparr>,
        \<lparr>title = ''ODC Lane'', start = 1704787200000, endt = 1704801600000\<rparr>,
        \<lparr>title = ''OFF C'', start = 1704787200000, endt = 1704819600000\<rparr>,
        \<lparr>title = ''OFF A'', start = 1704787200000, endt = 1704819600000\<rparr>]"
    by (simp only: mp [OF conjunct2 [OF policyA_lane_week_double_off [OF h]] f]
          weekendEvents_def endOf_def t)
       code_simp
  have g': "generateSchedule (demo\<lparr>years := 3 / 128, lanePatternWeeks := 1\<rparr>) =
     Inr [\<lparr>title = ''HOSPITAL A'', start = 1704092400000, endt = 1704128400000\<rparr>,
        \<lparr>title = ''ODC Lane'', start = 1704096000000, endt = 1704110400000\<rparr>,
        \<lparr>title = ''OFF B'', start = 1704096000000, endt = 1704128400000\<rparr>,
        \<lparr>title = ''OFF C'', start = 1704096000000, endt = 1704128400000\<rparr>,
        \<lparr>title = ''HOSPITAL A'', start = 1704178800000, endt = 1704214800000\<rparr>,
        \<lparr>title = ''ODC Lane'', start = 1704182400000, endt = 1704196800000\<rparr>,
        \<lparr>title = ''OFF B'', start = 1704182400000, endt = 1704214800000\<rparr>,
        \<lparr>title = ''OFF C'', start = 1704182400000, endt = 1704214800000\<rparr>,
        \<lparr>title = ''HOSPITAL A'', start = 1704265200000, endt = 1704301200000\<rparr>,
        \<lparr>title = ''ODC Lane'', start = 1704268800000, endt = 1704283200000\<rparr>,
        \<lparr>title = ''OFF B'', start = 1704268800000, endt = 1704301200000\<rparr>,
        \<lparr>title = ''OFF C'', start = 1704268800000, endt = 1704301200000\<rparr>,
        \<lparr>title = ''HOSPITAL A'', start = 1704351600000, endt = 1704387600000\<rparr>,
        \<lparr>title = ''ODC Lane'', start = 1704355200000, endt = 1704369600000\<rparr>,
        \<lparr>title = ''OFF B'', start = 1704355200000, endt = 1704387600000\<rparr>,
        \<lparr>title = ''OFF C'', start = 1704355200000, endt = 1704387600000\<rparr>,
        \<lparr>title = ''HOSPITAL A'', start = 1704438000000, endt = 1704474000000\<rparr>,
        \<lparr>title = ''ODC Lane'', start = 1704441600000, endt = 1704456000000\<rparr>,
        \<lparr>title = ''OFF B'', start = 1704441600000, endt = 1704474000000\<rparr>,
        \<lparr>title = ''OFF C'', start = 1704441600000, endt = 1704474000000\<rparr>,
        \<lparr>title = ''Weekend Lane'', start = 1704520800000, endt = 1704671940000\<rparr>,
        \<lparr>title = ''HOSPITAL B'', start = 1704697200000, endt = 1704733200000\<rparr>,
        \<lparr>title = ''ODC Lane'', start = 1704700800000, endt = 1704715200000\<rparr>,
        \<lparr>title = ''OFF C'', start = 1704700800000, endt = 1704733200000\<rparr>,
        \<lparr>title = ''OFF A'', start = 1704700800000, endt = 1704733200000\<rparr>,
        \<lparr>title = ''HOSPITAL B'', start = 1704783600000, endt = 1704819600000\<rparr>,
        \<lparr>title = ''ODC Lane'', start = 1704787200000, endt = 1704801600000\<rparr>,
        \<lparr>title = ''OFF C'', start = 1704787200000, endt = 1704819600000\<rparr>,
        \<lparr>title = ''OFF A'', start = 1704787200000, endt = 1704819600000\<rparr>]"
    by code_simp
  from h f l g g' show ?thesis by (intro conjI) simp_all
qed

text \<open>
  C7, as claimed: with \<open>years = 0\<close> or a fraction giving \<open>totalDays = 7\<close>, the order
  [A, B, C], \<open>lanePatternWeeks = 4\<close> and both off flags set, the generator produces 21 events,
  the weekend event titled "Weekend A" when \<open>laneWeekendEvery \<noteq> 1\<close>. The code differs twice:
  with \<open>years = 0\<close> there are no weeks and the schedule is empty, and week 0 is a lane weekend
  for every non-zero cadence (\<open>0 % k = 0\<close>), so with \<open>laneWeekendEvery = 2\<close> the weekend event
  is titled "Weekend Lane".
\<close>

theorem one_week_scenario_counterexample:
  "generateSchedule (demo\<lparr>years := 0\<rparr>) = Inr []
   \<and> laneWeekendEvery demo \<noteq> 1
   \<and> map title (projr (generateSchedule demo)) =
       [''HOSPITAL A'', ''ODC Lane'', ''OFF B'', ''OFF C'',
        ''HOSPITAL A'', ''ODC Lane'', ''OFF B'', ''OFF C'',
        ''HOSPITAL A'', ''ODC Lane'', ''OFF B'', ''OFF C'',
        ''HOSPITAL A'', ''ODC Lane'', ''OFF B'', ''OFF C'',
        ''HOSPITAL A'', ''ODC Lane'', ''OFF B'', ''OFF C'',
        ''Weekend Lane'']"
  by code_simp

text \<open>
  C7, amended: for a rotation order of three people, \<open>lanePatternWeeks = 4\<close> and both off flags
  set, a \<open>years\<close> giving \<open>totalDays = 7\<close> produces exactly 21 events: on each of the five
  weekdays "HOSPITAL A", "ODC Lane", "OFF B" and "OFF C" (both in the on-call window), and one
  weekend event, titled "Weekend Lane" for every \<open>laneWeekendEvery \<noteq> 0\<close> and "Weekend A" for
  \<open>laneWeekendEvery = 0\<close>; with \<open>years = 0\<close> the schedule is empty.
\<close>

theorem one_week_scenario:
  assumes "rotationOrder p = [a, b, c]" and "lanePatternWeeks p = 4"
    and "showOff p" and "doubleOffOnLaneWeeks p"
  shows "(totalDays p = 7 \<longrightarrow>
      generateSchedule p =
        Inr (sortByStart (concat (map (\<lambda>d.
          [windowEvent (''HOSPITAL '' @ a)
             (addDays (startDate p) d) (hospStartTime p) (addDays (startDate p) d) (hospEndTime p),
           windowEvent ''ODC Lane''
             (addDays (startDate p) d) (laneStartTime p) (addDays (startDate p) d) (laneEndTime p),
           windowEvent (''OFF '' @ b)
             (addDays (startDate p) d) (odcStartTime p) (addDays (startDate p) d) (odcEndTime p),
           windowEvent (''OFF '' @ c)
             (addDays (startDate p) d) (odcStartTime p) (addDays (startDate p) d) (odcEndTime p)])
          [0, 1, 2, 3, 4])
          @ [windowEvent (if laneWeekendEvery p = 0 then ''Weekend '' @ a else ''Weekend Lane'')
               (addDays (startDate p) 5) (weekendStartTime p)
               (addDays (startDate p) 6) (weekendEndTime p)]))
      \<and> (\<exists>evs. generateSchedule p = Inr evs \<and> length evs = 21))
   \<and> (years p = 0 \<longrightarrow> generateSchedule p = Inr [])"
proof -
  have "generateSchedule p = Inr []" if "years p = 0"
    using that assms(1) by (simp add: generateSchedule_def no_days_no_events sortByStart_def)
  then show ?thesis
    using one_week_events [OF assms(1) _ assms(2,3,4)] by blast
qed

theorem one_week_scenario_witness:
  "rotationOrder demo = [''A'', ''B'', ''C''] \<and> lanePatternWeeks demo = 4
   \<and> showOff demo \<and> doubleOffOnLaneWeeks demo \<and> totalDays demo = 7
   \<and> (\<exists>evs. generateSchedule demo = Inr evs \<and> length evs = 21)
   \<and> years (demo\<lparr>years := 0\<rparr>) = 0
   \<and> generateSchedule (demo\<lparr>years := 0\<rparr>) = Inr []"
proof -
  have h: "rotationOrder demo = [''A'', ''B'', ''C'']" "lanePatternWeeks demo = 4"
    "showOff demo" "doubleOffOnLaneWeeks demo"
    by code_simp+
  have t: "totalDays demo = 7" by code_simp
  have h0: "rotationOrder (demo\<lparr>years := 0\<rparr>) = [''A'', ''B'', ''C'']"
    "lanePatternWeeks (demo\<lparr>years := 0\<rparr>) = 4"
    "showOff (demo\<lparr>years := 0\<rparr>)" "doubleOffOnLaneWeeks (demo\<lparr>years := 0\<rparr>)"
    by code_simp+
  have y: "years (demo\<lparr>years := 0\<rparr>) = 0" by simp
  from one_week_scenario [OF h] t
  have a: "\<exists>evs. generateSchedule demo = Inr evs \<and> length evs = 21" by blast
  from one_week_scenario [OF h0] y
  have b: "generateSchedule (demo\<lparr>years := 0\<rparr>) = Inr []" by blast
  from h t a y b show ?thesis by simp
qed

text \<open>
  C8. The generator computes \<open>totalDays = floor(years \<times> 365.25)\<close>, the product being the
  double product of the code, \<open>end = start + totalDays\<close> days and
  \<open>weeksTotal = ceil(totalDays / 7)\<close>; and once a weekday date of week \<open>w\<close>, day \<open>d\<close> is after
  the end, the weekday loop emits nothing more: not from day \<open>d\<close> on in that week, and not in
  any later week. The last instance below is the double \<^verbatim>\<open>0.02190280629705681\<close>, whose
  exact product with 365.25 is just under 8 and whose double product is 8.
\<close>

theorem span_and_early_exit:
  assumes "0 \<le> d" and "d < 5" and "addDays (weekStart p w) d > endDate p"
    and "(w' = w \<and> d \<le> d') \<or> (w < w' \<and> 0 \<le> d')"
  shows "of_int (totalDays p) \<le> binary64 (years p * 365.25)
       \<and> binary64 (years p * 365.25) < of_int (totalDays p) + 1
       \<and> endDate p = startDate p + totalDays p * msPerDay
       \<and> 7 * (weeksTotal p - 1) < totalDays p \<and> totalDays p \<le> 7 * weeksTotal p
       \<and> weekdayLoop p w' d' shifts = shifts
       \<and> weekdayLoop_app p w' d' shifts = shifts"
proof -
  have a: "of_int (totalDays p) \<le> binary64 (years p * 365.25)
       \<and> binary64 (years p * 365.25) < of_int (totalDays p) + 1"
    unfolding totalDays_def by linarith
  have b: "endDate p = startDate p + totalDays p * msPerDay"
    by (simp add: endDate_def addDays_def)
  have "totalDays p < 7 * w + d" using assms(3) by (simp add: date_gt_end)
  with assms(1,2,4) have "totalDays p < 7 * w' + d'" by auto
  then have c: "weekdayLoop p w' d' shifts = shifts" "weekdayLoop_app p w' d' shifts = shifts"
    by (rule dayLoop_nothing)+
  from a b c weeksTotal_ceiling [of p] show ?thesis by simp
qed

theorem span_and_early_exit_witness:
  "(0::int) \<le> 2 \<and> (2::int) < 5
   \<and> endDate (demo\<lparr>years := 3 / 128\<rparr>) < addDays (weekStart (demo\<lparr>years := 3 / 128\<rparr>) 1) 2
   \<and> totalDays (demo\<lparr>years := 3 / 128\<rparr>) = 8
   \<and> weeksTotal (demo\<lparr>years := 3 / 128\<rparr>) = 2
   \<and> weekdayLoop (demo\<lparr>years := 3 / 128\<rparr>) 1 3 [] = []
   \<and> weekdayLoop_app (demo\<lparr>years := 3 / 128\<rparr>) 2 0 [] = []
   \<and> totalDays (demo\<lparr>years := 6313054097778765 / 288230376151711744\<rparr>) = 8"
proof -
  let ?p = "demo\<lparr>years := 3 / 128\<rparr>"
  have t: "totalDays ?p = 8" "weeksTotal ?p = 2" by code_simp+
  have v: "totalDays (demo\<lparr>years := 6313054097778765 / 288230376151711744\<rparr>) = 8" by code_simp
  have h: "endDate ?p < addDays (weekStart ?p 1) 2" by code_simp
  have a: "weekdayLoop ?p 1 3 [] = []"
    using span_and_early_exit [where p = ?p and w = 1 and d = 2 and w' = 1 and d' = 3
        and shifts = "[]", OF _ _ h]
    by simp
  have b: "weekdayLoop_app ?p 2 0 [] = []"
    using span_and_early_exit [where p = ?p and w = 1 and d = 2 and w' = 2 and d' = 0
        and shifts = "[]", OF _ _ h]
    by simp
  from h t a b v show ?thesis by simp
qed

text \<open>
  C9. The claim asks for DTSTART and DTEND in the form YYYYMMDDTHHMM00. The document has the
  claimed lines in the claimed order (\<open>exportICS_document\<close>), but \<^verbatim>\<open>toICSDateTime\<close> pads
  month, day, hours and minutes and not the year: for an event on 1 January 999 (day
  \<open>-354650\<close>), as the generator emits for a start on that day, the year is written with three
  digits and the field has 14 characters.
\<close>

theorem exportICS_year_999:
  "exportICS (\<lambda>i. ''id'') (\<lambda>i. 19723 * msPerDay)
     [\<lparr>title = ''HOSPITAL A'', start = - 354650 * msPerDay + 7 * 3600000,
        endt = - 354650 * msPerDay + 17 * 3600000\<rparr>]
   = join CRLF
       [''BEGIN:VCALENDAR'', ''VERSION:2.0'', ''PRODID:-//ShiftScheduler//EN'',
        ''BEGIN:VEVENT'', ''UID:id'', ''DTSTAMP:20240101T000000'', ''SUMMARY:HOSPITAL A'',
        ''DTSTART:9990101T070000'', ''DTEND:9990101T170000'', ''END:VEVENT'',
        ''END:VCALENDAR'']
   \<and> length (toICSDateTime (- 354650 * msPerDay + 7 * 3600000)) = 14
   \<and> hd (projr (generateSchedule (demo\<lparr>startDate := - 354650 * msPerDay\<rparr>)))
       = \<lparr>title = ''HOSPITAL A'', start = - 354650 * msPerDay + 7 * 3600000,
           endt = - 354650 * msPerDay + 17 * 3600000\<rparr>"
  by code_simp

text \<open>
  C10. With \<open>lanePatternWeeks = 0\<close> the remainder \<open>week % 0\<close> is \<open>NaN\<close>, no week is a lane week
  and the weekday loops emit the events of an ordinary week only; with
  \<open>laneWeekendEvery = 0\<close> no week is a lane weekend and every in-range weekend event is
  titled "Weekend {person}". Generation does not fail on either: the single-role generator
  always returns a schedule, the three-role generator fails on the length of the rotation
  order alone.
\<close>

theorem zero_cadence_no_lane:
  "(lanePatternWeeks p = 0 \<longrightarrow>
      \<not> isLaneWeek p w
      \<and> weekdayLoop p w 0 shifts =
          shifts @ concat (map (\<lambda>d.
            [windowEvent (''HOSPITAL '' @ tpl (hospitalForWeek (rotationOrder p) w))
               (addDays (weekStart p w) d) (hospStartTime p) (addDays (weekStart p w) d) (hospEndTime p),
             windowEvent (''ODC '' @ tpl (odcForWeek (rotationOrder p) w))
               (addDays (weekStart p w) d) (odcStartTime p) (addDays (weekStart p w) d) (odcEndTime p)]
            @ (if showOff p
               then [windowEvent (''OFF '' @ tpl (offForWeek (rotationOrder p) w))
                       (addDays (weekStart p w) d) (odcStartTime p)
                       (addDays (weekStart p w) d) (odcEndTime p)]
               else []))
            (inRangeDays p w))
      \<and> weekdayLoop_app p w 0 shifts =
          shifts @ concat (map (\<lambda>d.
            [windowEvent (''HOSPITAL '' @ tpl (personForWeek p w))
               (addDays (weekStart p w) d) (hospStartTime p) (addDays (weekStart p w) d) (hospEndTime p),
             windowEvent (''ODC '' @ tpl (personForWeek p w))
               (addDays (weekStart p w) d) (odcStartTime p) (addDays (weekStart p w) d) (odcEndTime p)])
            (inRangeDays p w)))
   \<and> (laneWeekendEvery p = 0 \<longrightarrow>
      \<not> isLaneWeekend p w
      \<and> weekendBlock p w person shifts =
          shifts @ (if addDays (weekStart p w) 5 \<le> endDate p
                    then [windowEvent (''Weekend '' @ tpl person)
                            (addDays (weekStart p w) 5) (weekendStartTime p)
                            (addDays (weekStart p w) 6) (weekendEndTime p)]
                    else []))
   \<and> (\<exists>evs. generateSchedule_app p = Inr evs)
   \<and> (\<exists>evs. generateSchedule p = Inr evs) = (3 \<le> length (rotationOrder p))"
proof -
  have a: "lanePatternWeeks p = 0 \<Longrightarrow> \<not> isLaneWeek p w"
    by (simp add: isLaneWeek_def js_rem_zero_right)
  have b: "laneWeekendEvery p = 0 \<Longrightarrow> \<not> isLaneWeekend p w"
    by (simp add: isLaneWeekend_def js_rem_zero_right)
  have c: "\<not> isLaneWeekend p w \<Longrightarrow> weekendBlock p w person shifts =
          shifts @ (if addDays (weekStart p w) 5 \<le> endDate p
                    then [windowEvent (''Weekend '' @ tpl person)
                            (addDays (weekStart p w) 5) (weekendStartTime p)
                            (addDays (weekStart p w) 6) (weekendEndTime p)]
                    else [])"
    by (simp add: weekendBlock_spec weekendSpec_def)
  have d: "\<exists>evs. generateSchedule_app p = Inr evs"
    by (simp add: generateSchedule_app_def)
  have e: "(\<exists>evs. generateSchedule p = Inr evs) = (3 \<le> length (rotationOrder p))"
    by (auto simp: generateSchedule_def)
  show ?thesis
    using a b c d e
    by (simp add: weekdayLoop_days [of p w shifts] weekdayLoop_app_days [of p w shifts]
          weekdayBody_no_lane weekdayBody_app_no_lane)
qed

theorem zero_cadence_no_lane_witness:
  "lanePatternWeeks (demo\<lparr>lanePatternWeeks := 0, laneWeekendEvery := 0\<rparr>) = 0
   \<and> laneWeekendEvery (demo\<lparr>lanePatternWeeks := 0, laneWeekendEvery := 0\<rparr>) = 0
   \<and> \<not> isLaneWeek (demo\<lparr>lanePatternWeeks := 0, laneWeekendEvery := 0\<rparr>) 0
   \<and> \<not> isLaneWeekend (demo\<lparr>lanePatternWeeks := 0, laneWeekendEvery := 0\<rparr>) 0
   \<and> map title (weekdayLoop (demo\<lparr>lanePatternWeeks := 0, laneWeekendEvery := 0\<rparr>) 0 0 []) =
       [''HOSPITAL A'', ''ODC B'', ''OFF C'', ''HOSPITAL A'', ''ODC B'', ''OFF C'',
        ''HOSPITAL A'', ''ODC B'', ''OFF C'', ''HOSPITAL A'', ''ODC B'', ''OFF C'',
        ''HOSPITAL A'', ''ODC B'', ''OFF C'']
   \<and> map title (weekendBlock (demo\<lparr>lanePatternWeeks := 0, laneWeekendEvery := 0\<rparr>) 0 (Some ''A'') []) =
       [''Weekend A'']
   \<and> (\<exists>evs. generateSchedule (demo\<lparr>lanePatternWeeks := 0, laneWeekendEvery := 0\<rparr>) = Inr evs)"
proof -
  let ?p = "demo\<lparr>lanePatternWeeks := 0, laneWeekendEvery := 0\<rparr>"
  note t = zero_cadence_no_lane [of ?p 0 "[]" "Some ''A''"]
  have h: "lanePatternWeeks ?p = 0" "laneWeekendEvery ?p = 0" "3 \<le> length (rotationOrder ?p)"
    by (simp_all add: demo_def)
  from t h have a: "\<not> isLaneWeek ?p 0" "\<not> isLaneWeekend ?p 0"
    "\<exists>evs. generateSchedule ?p = Inr evs"
    by blast+
  from t h have wd: "weekdayLoop ?p 0 0 [] =
          [] @ concat (map (\<lambda>d.
            [windowEvent (''HOSPITAL '' @ tpl (hospitalForWeek (rotationOrder ?p) 0))
               (addDays (weekStart ?p 0) d) (hospStartTime ?p) (addDays (weekStart ?p 0) d) (hospEndTime ?p),
             windowEvent (''ODC '' @ tpl (odcForWeek (rotationOrder ?p) 0))
               (addDays (weekStart ?p 0) d) (odcStartTime ?p) (addDays (weekStart ?p 0) d) (odcEndTime ?p)]
            @ (if showOff ?p
               then [windowEvent (''OFF '' @ tpl (offForWeek (rotationOrder ?p) 0))
                       (addDays (weekStart ?p 0) d) (odcStartTime ?p)
                       (addDays (weekStart ?p 0) d) (odcEndTime ?p)]
               else []))
            (inRangeDays ?p 0))"
    by blast
  from t h have we: "weekendBlock ?p 0 (Some ''A'') [] =
          [] @ (if addDays (weekStart ?p 0) 5 \<le> endDate ?p
                    then [windowEvent (''Weekend '' @ tpl (Some ''A''))
                            (addDays (weekStart ?p 0) 5) (weekendStartTime ?p)
                            (addDays (weekStart ?p 0) 6) (weekendEndTime ?p)]
                    else [])"
    by blast
  have b: "map title (weekdayLoop ?p 0 0 []) =
       [''HOSPITAL A'', ''ODC B'', ''OFF C'', ''HOSPITAL A'', ''ODC B'', ''OFF C'',
        ''HOSPITAL A'', ''ODC B'', ''OFF C'', ''HOSPITAL A'', ''ODC B'', ''OFF C'',
        ''HOSPITAL A'', ''ODC B'', ''OFF C'']"
    by (simp only: wd) code_simp
  have c: "map title (weekendBlock ?p 0 (Some ''A'') []) = [''Weekend A'']"
    by (simp only: we) code_simp
  from h a b c show ?thesis by simp
qed

end
